theory Spec2Isabelle
  imports Complex_Main
begin

section \<open>MMM-Birthday: confetti particles, emitters and the celebration controller\<close>

text \<open>
  The development embeds \<^verbatim>\<open>confetti.js\<close>, \<^verbatim>\<open>fireworks.js\<close> and version 1.3.0 of
  \<^verbatim>\<open>MMM-Birthday.js\<close>. JavaScript numbers are modelled as \<^typ>\<open>real\<close>: rounding,
  infinities and NaN of IEEE doubles are outside the model, so the statements about
  the update of a particle, which divides by the viewport height, are made for a
  positive height.
  A call of \<^verbatim>\<open>Math.random()\<close> is a read of the next element of a sequence
  \<open>rnd :: nat \<Rightarrow> real\<close> of draws; the position in the sequence is part of the state.
\<close>

subsection \<open>Confetti: one particle\<close>

record particle =
  px :: real
  py :: real
  angle :: real
  velocity :: real
  gravity :: real
  drag :: real
  wobble :: real
  wobbleSpeed :: real
  color :: string
  psize :: real
  opacity :: real
  vx :: real
  vy :: real

text \<open>The first half of \<^verbatim>\<open>Particle.update\<close>: position, gravity, air resistance, wobble.\<close>

definition physics :: "particle \<Rightarrow> particle" where
  "physics p =
     p\<lparr> px := px p + vx p,
        py := py p + vy p,
        vx := vx p * (1 - drag p),
        vy := (vy p + gravity p) * (1 - drag p),
        wobble := wobble p + wobbleSpeed p \<rparr>"

text \<open>The two local constants of \<^verbatim>\<open>Particle.update\<close>, read after the physics step.\<close>

definition velocityFade :: "particle \<Rightarrow> real" where
  "velocityFade p = min 1 (sqrt (vx p * vx p + vy p * vy p) / 6)"

definition heightFade :: "real \<Rightarrow> particle \<Rightarrow> real" where
  "heightFade h p = 1 - max 0 ((py p - h * 0.95) / (h * 0.05))"

text \<open>
  \<^verbatim>\<open>Particle.update\<close>: the particle after the tick and the returned flag
  (\<^verbatim>\<open>this.opacity > 0.1 && this.y < height\<close>).
\<close>

definition update :: "real \<Rightarrow> particle \<Rightarrow> particle \<times> bool" where
  "update h p =
     (let q = physics p;
          r = q\<lparr> opacity := min (velocityFade q) (heightFade h q) \<rparr>
      in (r, opacity r > 0.1 \<and> py r < h))"

subsection \<open>The page, the timers and the module state\<close>

text \<open>
  \<^verbatim>\<open>endTime\<close> of the fireworks and \<^verbatim>\<open>end\<close> of the confetti chain hold either
  \<^verbatim>\<open>Infinity\<close> or a timestamp in milliseconds; \<open>before now t\<close> is \<^verbatim>\<open>now < t\<close>.
\<close>

datatype jstime = Infinity | Finite real

fun before :: "real \<Rightarrow> jstime \<Rightarrow> bool" where
  "before t Infinity = True"
| "before t (Finite e) = (t < e)"

text \<open>A configured duration: the string \<^verbatim>\<open>"infinite"\<close> or a number of milliseconds.\<close>

datatype duration = Infinite | Ms real

text \<open>
  The functions handed to \<^verbatim>\<open>setTimeout\<close>, each with the values its closure holds:
  \<^verbatim>\<open>launchNext\<close> of \<^verbatim>\<open>Fireworks.start\<close>; the two timeouts of \<^verbatim>\<open>launch\<close> (rocket,
  \<^verbatim>\<open>x\<close>, colour); the fade of \<^verbatim>\<open>createSpark\<close> and the removal of \<^verbatim>\<open>createExplosion\<close>
  (spark); \<^verbatim>\<open>fireBurst\<close> of \<^verbatim>\<open>startConfetti\<close> (\<^verbatim>\<open>isInfinite\<close>, \<^verbatim>\<open>end\<close>); the stop timer
  of \<^verbatim>\<open>celebrateBirthday\<close>.
\<close>

datatype callback =
    LaunchNext
  | Explode nat real string
  | RemoveRocket nat
  | FadeSpark nat
  | RemoveSpark nat
  | FireBurst bool jstime
  | StopCelebration

text \<open>
  The elements of class \<^verbatim>\<open>rocket\<close> and \<^verbatim>\<open>spark\<close> in the document. A spark keeps the
  arguments \<^verbatim>\<open>angle\<close> and \<^verbatim>\<open>velocity\<close> of \<^verbatim>\<open>createSpark\<close> beside the style computed
  from them.
\<close>

record rocket =
  rocket_id :: nat
  rocket_left :: real

record spark =
  spark_id :: nat
  spark_left :: real
  spark_top :: real
  spark_color :: string
  spark_angle :: real
  spark_velocity :: real
  spark_duration :: real
  spark_distance :: real
  translate_x :: real
  translate_y :: real
  spark_faded :: bool

datatype node = Rocket rocket | Spark spark

text \<open>
  The element of class \<^verbatim>\<open>birthday-module\<close> (its \<^verbatim>\<open>style.display\<close> and the message
  of its one child, if any) and the elements of class \<^verbatim>\<open>module\<close>.
\<close>

datatype css_display = Unset | DisplayNone | DisplayBlock

record wrapper =
  display :: css_display
  message :: "string option"

record host_module =
  birthday_class :: bool
  style_filter :: string
  style_transition :: string

record fireworks =
  endTime :: jstime

text \<open>
  The whole state: the fields of the module object, the variables of the confetti
  closure, the document, the pending timeouts \<open>(delay, function)\<close> in the order of
  their \<^verbatim>\<open>setTimeout\<close> calls, the pending animation-frame requests, the counters for
  fresh element and request identifiers, and the number of \<^verbatim>\<open>Math.random()\<close> calls
  made so far. \<open>calls\<close> is a trace: the argument of every call of
  \<^verbatim>\<open>celebrateBirthday\<close>, oldest first (\<open>None\<close> is \<^verbatim>\<open>undefined\<close>).
  \<^verbatim>\<open>Fireworks.particles\<close> is never read and is left out. \<^verbatim>\<open>celebrationInterval\<close> is
  set to \<^verbatim>\<open>null\<close> by \<^verbatim>\<open>start\<close> and never assigned again.
\<close>

record world =
  celebrating :: bool
  wasCelebrating :: bool
  celebrationInterval :: "nat option"
  fireworks :: "fireworks option"
  particles :: "particle list"
  isAnimating :: bool
  animationFrame :: "nat option"
  width :: real
  height :: real
  canvasAttached :: bool
  fireworkStyles :: bool
  nodes :: "node list"
  wrapper :: "wrapper option"
  modules :: "host_module list"
  timers :: "(real \<times> callback) list"
  frames :: "nat list"
  nextFrame :: nat
  nextId :: nat
  draws :: nat
  calls :: "string option list"

text \<open>
  What a handler reads from outside: the clock (\<^verbatim>\<open>Date.now()\<close>, and month and day of
  \<^verbatim>\<open>new Date()\<close>; one reading serves the whole handler), the random draws, the
  result of \<^verbatim>\<open>this.translate("MESSAGES")\<close>, the top of the rocket's bounding
  rectangle, and the size of the window.
\<close>

datatype translation = Untranslated | Throws | Templates "string list" | NotArray

record env =
  now :: real
  getMonth :: nat
  getDate :: nat
  rnd :: "nat \<Rightarrow> real"
  translation :: translation
  rocketTop :: real
  innerWidth :: real
  innerHeight :: real

record birthday =
  name :: string
  date :: string

record config =
  birthdays :: "birthday list option"
  fireworkDuration :: duration
  confettiDuration :: duration

definition setTimeout :: "callback \<Rightarrow> real \<Rightarrow> world \<Rightarrow> world" where
  "setTimeout f delay w = w\<lparr> timers := timers w @ [(delay, f)] \<rparr>"

definition requestAnimationFrame :: "world \<Rightarrow> world" where
  "requestAnimationFrame w =
     w\<lparr> animationFrame := Some (nextFrame w),
        frames := frames w @ [nextFrame w],
        nextFrame := nextFrame w + 1 \<rparr>"

definition cancelAnimationFrame :: "nat \<Rightarrow> world \<Rightarrow> world" where
  "cancelAnimationFrame i w = w\<lparr> frames := removeAll i (frames w) \<rparr>"

text \<open>
  \<^verbatim>\<open>xs[Math.floor(r * xs.length)]\<close>; an index outside the array reads \<^verbatim>\<open>undefined\<close>.
\<close>

definition pick :: "'a list \<Rightarrow> real \<Rightarrow> 'a option" where
  "pick xs r =
     (let i = \<lfloor>r * real (length xs)\<rfloor>
      in if 0 \<le> i \<and> i < int (length xs) then Some (xs ! nat i) else None)"

text \<open>A string placed into a string: \<^verbatim>\<open>undefined\<close> reads \<^verbatim>\<open>"undefined"\<close>.\<close>

definition toStr :: "string option \<Rightarrow> string" where
  "toStr v = (case v of None \<Rightarrow> ''undefined'' | Some s \<Rightarrow> s)"

subsection \<open>Confetti: the particle set and the frame loop\<close>

definition defaultColors :: "string list" where
  "defaultColors = [''#ff718d'', ''#fdff6a'', ''#58cffb'', ''#ffffff'', ''#7b52ff'']"

text \<open>
  The constructor of \<^verbatim>\<open>Particle\<close>, with the options spelt out and the closure's
  \<^verbatim>\<open>width\<close> and \<^verbatim>\<open>height\<close> as \<open>w\<close> and \<open>h\<close>. It makes seven draws, starting at \<open>k\<close>.
\<close>

definition new_Particle ::
  "(nat \<Rightarrow> real) \<Rightarrow> nat \<Rightarrow> string list \<Rightarrow> real \<Rightarrow> real \<Rightarrow> bool \<Rightarrow> real \<Rightarrow> real \<Rightarrow> particle" where
  "new_Particle r k cols v0 spread isLeftCannon w h =
     (let cannonOffset = (if isLeftCannon then w * 0.15 else w * 0.85);
          baseAngle = (if isLeftCannon then - 45 else - 135);
          angleVariation = (r k - 0.5) * 20;
          spreadAngle = (r (k + 1) - 0.5) * spread;
          a = ((baseAngle + angleVariation + spreadAngle) * pi) / 180;
          v = v0 * (0.95 + r (k + 2) * 0.25)
      in \<lparr> px = cannonOffset, py = h - 20, angle = a, velocity = v,
           gravity = 0.25, drag = 0.045,
           wobble = r (k + 3) * 360, wobbleSpeed = r (k + 4) * 2 - 1,
           color = toStr (pick cols (r (k + 5))), psize = r (k + 6) * 6 + 4, opacity = 1,
           vx = cos a * v, vy = sin a * v * 1.4 \<rparr>)"

text \<open>
  \<^verbatim>\<open>animate\<close>: one pass of the frame loop. Clearing and drawing on the canvas leave
  the state as it is.
\<close>

definition animate :: "world \<Rightarrow> world" where
  "animate w =
     (if \<not> isAnimating w then w
      else
        let ps = map fst (filter snd (map (update (height w)) (particles w)));
            w1 = w\<lparr> particles := ps \<rparr>
        in if length ps > 0 then requestAnimationFrame w1
           else w1\<lparr> isAnimating := False \<rparr>)"

text \<open>\<^verbatim>\<open>Confetti.init\<close>.\<close>

definition init :: "world \<Rightarrow> world" where
  "init w = (if \<not> canvasAttached w then w\<lparr> canvasAttached := True \<rparr> else w)"

text \<open>
  \<^verbatim>\<open>Confetti.fire\<close>: each of the two loops pushes \<open>particleCount\<close> particles, seven
  draws apiece.
\<close>

definition fire_particleCount :: nat where
  "fire_particleCount = 15"

definition cannon :: "(nat \<Rightarrow> real) \<Rightarrow> nat \<Rightarrow> bool \<Rightarrow> world \<Rightarrow> particle list" where
  "cannon r k isLeftCannon w =
     map (\<lambda>i. new_Particle r (k + 7 * i) defaultColors 45 20 isLeftCannon (width w) (height w))
       [0 ..< fire_particleCount]"

definition fire :: "env \<Rightarrow> world \<Rightarrow> world" where
  "fire e w =
     (let k = draws w;
          w1 = w\<lparr> particles := particles w @ cannon (rnd e) k True w
                        @ cannon (rnd e) (k + 7 * fire_particleCount) False w,
                   draws := k + 14 * fire_particleCount \<rparr>
      in if \<not> isAnimating w1 then animate (w1\<lparr> isAnimating := True \<rparr>) else w1)"

text \<open>
  \<^verbatim>\<open>Confetti.cleanup\<close>. A request identifier is a positive number, so
  \<^verbatim>\<open>if (animationFrame)\<close> asks whether a frame was ever requested.
\<close>

definition Confetti_cleanup :: "world \<Rightarrow> world" where
  "Confetti_cleanup w =
     (let w1 = w\<lparr> isAnimating := False \<rparr>;
          w2 = (case animationFrame w1 of
                  Some i \<Rightarrow> cancelAnimationFrame i w1
                | None \<Rightarrow> w1);
          w3 = w2\<lparr> particles := [] \<rparr>
      in if canvasAttached w3 then w3\<lparr> canvasAttached := False \<rparr> else w3)"

text \<open>The \<^verbatim>\<open>resize\<close> listener of the confetti closure.\<close>

definition resize :: "env \<Rightarrow> world \<Rightarrow> world" where
  "resize e w = w\<lparr> width := innerWidth e, height := innerHeight e \<rparr>"

text \<open>
  One display frame: the browser empties its list of requests and runs the function
  of each, which is \<^verbatim>\<open>animate\<close> for every request this program makes.
\<close>

definition frame :: "world \<Rightarrow> world" where
  "frame w = fold (\<lambda>i. animate) (frames w) (w\<lparr> frames := [] \<rparr>)"

text \<open>\<open>idle n\<close>: \<open>n\<close> display frames in a row, with nothing else running between them.\<close>

fun idle :: "nat \<Rightarrow> world \<Rightarrow> world" where
  "idle 0 w = w"
| "idle (Suc n) w = idle n (frame w)"

text \<open>
  \<open>dies_within h n p\<close>: one of the next \<open>n\<close> updates of \<open>p\<close> reports it not alive.
\<close>

fun dies_within :: "real \<Rightarrow> nat \<Rightarrow> particle \<Rightarrow> bool" where
  "dies_within h 0 p = False"
| "dies_within h (Suc n) p = (\<not> snd (update h p) \<or> dies_within h n (fst (update h p)))"

subsection \<open>Fireworks\<close>

definition colors :: "string list" where
  "colors = [''#ff0000'', ''#ffa500'', ''#ffff00'', ''#00ff00'', ''#00ffff'',
             ''#0000ff'', ''#ff00ff'', ''#ff1493'', ''#ffd700'', ''#00ff7f'']"

definition createStyleSheet :: "world \<Rightarrow> world" where
  "createStyleSheet w = (if \<not> fireworkStyles w then w\<lparr> fireworkStyles := True \<rparr> else w)"

text \<open>The constructor of \<^verbatim>\<open>Fireworks\<close>, storing the new object in \<^verbatim>\<open>this.fireworks\<close>.\<close>

definition new_Fireworks :: "world \<Rightarrow> world" where
  "new_Fireworks w = createStyleSheet (w\<lparr> fireworks := Some \<lparr> endTime = Infinity \<rparr> \<rparr>)"

definition createRocket :: "real \<Rightarrow> world \<Rightarrow> rocket \<times> world" where
  "createRocket x0 w =
     (\<lparr> rocket_id = nextId w, rocket_left = x0 \<rparr>, w\<lparr> nextId := nextId w + 1 \<rparr>)"

text \<open>\<^verbatim>\<open>createSpark\<close>: two draws (duration, distance) and the timeout of the fade.\<close>

definition createSpark ::
  "env \<Rightarrow> real \<Rightarrow> real \<Rightarrow> string \<Rightarrow> real \<Rightarrow> real \<Rightarrow> world \<Rightarrow> spark \<times> world" where
  "createSpark e x0 y0 c a v w =
     (let k = draws w;
          i = nextId w;
          rad = a * pi / 180;
          duration = 0.8 + rnd e k * 0.6;
          distance = v * (0.7 + rnd e (k + 1) * 0.3);
          s = \<lparr> spark_id = i, spark_left = x0, spark_top = y0, spark_color = c,
                spark_angle = a, spark_velocity = v,
                spark_duration = duration, spark_distance = distance,
                translate_x = cos rad * distance, translate_y = sin rad * distance,
                spark_faded = False \<rparr>
      in (s, setTimeout (FadeSpark i) (duration * 900)
               (w\<lparr> draws := k + 2, nextId := i + 1 \<rparr>)))"

definition explosion_particleCount :: nat where
  "explosion_particleCount = 80"

text \<open>The body of the loop of \<^verbatim>\<open>createExplosion\<close> at index \<open>i\<close>, and the loop.\<close>

definition explosion_step :: "env \<Rightarrow> real \<Rightarrow> real \<Rightarrow> string \<Rightarrow> nat \<Rightarrow> world \<Rightarrow> world" where
  "explosion_step e x0 y0 c i w =
     (let k = draws w;
          a = (real i * 360) / real explosion_particleCount + rnd e k * 20;
          v = 100 + rnd e (k + 1) * 100;
          (s, w1) = createSpark e x0 y0 c a v (w\<lparr> draws := k + 2 \<rparr>);
          w2 = w1\<lparr> nodes := nodes w1 @ [Spark s] \<rparr>
      in setTimeout (RemoveSpark (spark_id s)) 2000 w2)"

definition createExplosion :: "env \<Rightarrow> real \<Rightarrow> real \<Rightarrow> string \<Rightarrow> world \<Rightarrow> world" where
  "createExplosion e x0 y0 c w = fold (explosion_step e x0 y0 c) [0 ..< explosion_particleCount] w"

text \<open>The horizontal position computed by \<^verbatim>\<open>launch\<close> from its draw and the window width.\<close>

definition launch_x :: "real \<Rightarrow> real \<Rightarrow> real" where
  "launch_x r iw = r * (iw - 100) + 50"

definition launch :: "env \<Rightarrow> world \<Rightarrow> world" where
  "launch e w =
     (let k = draws w;
          x0 = launch_x (rnd e k) (innerWidth e);
          c = toStr (pick colors (rnd e (k + 1)));
          (rocket, w1) = createRocket x0 (w\<lparr> draws := k + 2 \<rparr>);
          w2 = w1\<lparr> nodes := nodes w1 @ [Rocket rocket] \<rparr>;
          w3 = setTimeout (Explode (rocket_id rocket) x0 c) 800 w2
      in setTimeout (RemoveRocket (rocket_id rocket)) 1000 w3)"

definition is_rocket :: "nat \<Rightarrow> node \<Rightarrow> bool" where
  "is_rocket i n = (case n of Rocket r \<Rightarrow> rocket_id r = i | Spark s \<Rightarrow> False)"

definition is_spark :: "nat \<Rightarrow> node \<Rightarrow> bool" where
  "is_spark i n = (case n of Rocket r \<Rightarrow> False | Spark s \<Rightarrow> spark_id s = i)"

text \<open>
  The first timeout of \<^verbatim>\<open>launch\<close>. The bounding rectangle of a rocket that is no
  longer in the document is all zeros.
\<close>

definition explode :: "nat \<Rightarrow> real \<Rightarrow> string \<Rightarrow> env \<Rightarrow> world \<Rightarrow> world" where
  "explode i x0 c e w =
     (let top = (if list_ex (is_rocket i) (nodes w) then rocketTop e else 0);
          w1 = createExplosion e x0 (top + 50) c w
      in w1\<lparr> nodes := filter (\<lambda>n. \<not> is_rocket i n) (nodes w1) \<rparr>)"

text \<open>The second timeout of \<^verbatim>\<open>launch\<close>, and the two timeouts of a spark.\<close>

definition removeRocket :: "nat \<Rightarrow> world \<Rightarrow> world" where
  "removeRocket i w = w\<lparr> nodes := filter (\<lambda>n. \<not> is_rocket i n) (nodes w) \<rparr>"

definition fadeSpark :: "nat \<Rightarrow> world \<Rightarrow> world" where
  "fadeSpark i w =
     w\<lparr> nodes := map (\<lambda>n. case n of Rocket r \<Rightarrow> Rocket r
                          | Spark s \<Rightarrow> if spark_id s = i then Spark (s\<lparr> spark_faded := True \<rparr>)
                                       else Spark s) (nodes w) \<rparr>"

definition removeSpark :: "nat \<Rightarrow> world \<Rightarrow> world" where
  "removeSpark i w = w\<lparr> nodes := filter (\<lambda>n. \<not> is_spark i n) (nodes w) \<rparr>"

text \<open>
  \<^verbatim>\<open>launchNext\<close>, the function \<^verbatim>\<open>Fireworks.start\<close> defines and hands to
  \<^verbatim>\<open>setTimeout\<close>: it reads \<^verbatim>\<open>endTime\<close> of the object it was defined on.
\<close>

definition running :: "env \<Rightarrow> world \<Rightarrow> bool" where
  "running e w = (case fireworks w of None \<Rightarrow> False | Some f \<Rightarrow> before (now e) (endTime f))"

definition minInterval :: real where
  "minInterval = 200"

definition maxInterval :: real where
  "maxInterval = 1000"

definition launchNext :: "env \<Rightarrow> world \<Rightarrow> world" where
  "launchNext e w =
     (if running e w then
        let w1 = launch e w;
            k = draws w1;
            nextDelay = rnd e k * (maxInterval - minInterval) + minInterval
        in setTimeout LaunchNext nextDelay (w1\<lparr> draws := k + 1 \<rparr>)
      else w)"

definition set_endTime :: "jstime \<Rightarrow> world \<Rightarrow> world" where
  "set_endTime t w = w\<lparr> fireworks := map_option (\<lambda>f. f\<lparr> endTime := t \<rparr>) (fireworks w) \<rparr>"

definition Fireworks_start :: "duration \<Rightarrow> env \<Rightarrow> world \<Rightarrow> world" where
  "Fireworks_start d e w =
     launchNext e
       (set_endTime (case d of Infinite \<Rightarrow> Infinity | Ms n \<Rightarrow> Finite (now e + n)) w)"

text \<open>
  \<^verbatim>\<open>Fireworks.cleanup\<close>. The selector \<^verbatim>\<open>.rocket, .spark\<close> matches every node of the
  document's list, and each is in the document, so each is removed.
\<close>

definition Fireworks_cleanup :: "world \<Rightarrow> world" where
  "Fireworks_cleanup w = (set_endTime (Finite 0) w)\<lparr> nodes := [] \<rparr>"

subsection \<open>The celebration controller\<close>

datatype error = TypeError

text \<open>
  The built-in messages of \<^verbatim>\<open>start\<close>; the emoji around each sentence are left out.
\<close>

definition defaultTranslations :: "string list" where
  "defaultTranslations =
     [''Happy Birthday, {name}!'',
      ''Best wishes on your special day, {name}!'',
      ''Have a fantastic birthday, {name}!'']"

text \<open>
  \<^verbatim>\<open>String.prototype.replace\<close> with a string pattern: the first occurrence is
  replaced. The \<^verbatim>\<open>$\<close> patterns of the replacement string are not interpreted here.
\<close>

fun replace :: "string \<Rightarrow> string \<Rightarrow> string \<Rightarrow> string" where
  "replace pat rep [] = (if pat = [] then rep else [])"
| "replace pat rep (c # cs) =
     (if take (length pat) (c # cs) = pat then rep @ drop (length pat) (c # cs)
      else c # replace pat rep cs)"

text \<open>The decimal digits of a number, and \<^verbatim>\<open>padStart(2, '0')\<close>.\<close>

definition digit :: "nat \<Rightarrow> char" where
  "digit n = ''0123456789'' ! n"

fun toString :: "nat \<Rightarrow> string" where
  "toString n = (if n < 10 then [digit n] else toString (n div 10) @ [digit (n mod 10)])"

declare toString.simps [simp del]

definition padStart2 :: "string \<Rightarrow> string" where
  "padStart2 s = replicate (2 - length s) (CHR ''0'') @ s"

definition currentDate :: "env \<Rightarrow> string" where
  "currentDate e =
     padStart2 (toString (getMonth e + 1)) @ ''-'' @ padStart2 (toString (getDate e))"

text \<open>
  \<^verbatim>\<open>getRandomMessage\<close>, reading the draw at position \<open>k\<close>. A translation that is
  missing, throws or is no array gives the built-in messages; reading outside the
  array gives \<^verbatim>\<open>undefined\<close>, whose \<^verbatim>\<open>replace\<close> is a \<^verbatim>\<open>TypeError\<close>.
\<close>

definition getRandomMessage :: "env \<Rightarrow> nat \<Rightarrow> string option \<Rightarrow> error + string" where
  "getRandomMessage e k nm =
     (let messages = (case translation e of
                        Templates ms \<Rightarrow> ms
                      | Untranslated \<Rightarrow> defaultTranslations
                      | Throws \<Rightarrow> defaultTranslations
                      | NotArray \<Rightarrow> defaultTranslations)
      in case pick messages (rnd e k) of
           None \<Rightarrow> Inl TypeError
         | Some m \<Rightarrow> Inr (replace ''{name}'' (toStr nm) m))"

definition createWrapper :: "world \<Rightarrow> world" where
  "createWrapper w = w\<lparr> wrapper := Some \<lparr> display = Unset, message = None \<rparr> \<rparr>"

definition dimOtherModules :: "world \<Rightarrow> world" where
  "dimOtherModules w =
     w\<lparr> modules := map (\<lambda>m. if \<not> birthday_class m
                              then m\<lparr> style_filter := ''brightness(30%)'',
                                     style_transition := ''filter 0.5s ease-in-out'' \<rparr>
                              else m) (modules w) \<rparr>"

definition startFireworks :: "config \<Rightarrow> env \<Rightarrow> world \<Rightarrow> world" where
  "startFireworks cfg e w = Fireworks_start (fireworkDuration cfg) e w"

text \<open>\<^verbatim>\<open>fireBurst\<close>, the function \<^verbatim>\<open>startConfetti\<close> defines, and \<^verbatim>\<open>startConfetti\<close>.\<close>

definition fireBurst :: "bool \<Rightarrow> jstime \<Rightarrow> env \<Rightarrow> world \<Rightarrow> world" where
  "fireBurst isInfinite end e w =
     (if celebrating w \<and> (isInfinite \<or> before (now e) end) then
        let w1 = fire e w;
            k = draws w1;
            nextDelay = 2000 + rnd e k * 6000
        in setTimeout (FireBurst isInfinite end) nextDelay (w1\<lparr> draws := k + 1 \<rparr>)
      else w)"

definition startConfetti :: "config \<Rightarrow> env \<Rightarrow> world \<Rightarrow> world" where
  "startConfetti cfg e w =
     (let isInfinite = (confettiDuration cfg = Infinite);
          end = (case confettiDuration cfg of
                   Infinite \<Rightarrow> Infinity
                 | Ms n \<Rightarrow> Finite (now e + n))
      in setTimeout (FireBurst isInfinite end) 1000 w)"

text \<open>
  \<^verbatim>\<open>celebrateBirthday\<close>. The result is the state when the call ends and the
  exception it ends with, if any: the only one is the \<^verbatim>\<open>TypeError\<close> of
  \<^verbatim>\<open>getRandomMessage\<close>, raised before the wrapper is touched.
\<close>

definition celebrateBirthday :: "config \<Rightarrow> env \<Rightarrow> string option \<Rightarrow> world \<Rightarrow> error option \<times> world" where
  "celebrateBirthday cfg e nm w =
     (let w0 = w\<lparr> calls := calls w @ [nm] \<rparr>;
          w1 = (if fireworks w0 = None then new_Fireworks w0 else w0);
          w2 = init w1;
          w3 = (if wrapper w2 = None then createWrapper w2 else w2);
          k = draws w3;
          w4 = w3\<lparr> draws := k + 1 \<rparr>
      in case getRandomMessage e k nm of
           Inl err \<Rightarrow> (Some err, w4)
         | Inr m \<Rightarrow>
             let w5 = w4\<lparr> wrapper := Some \<lparr> display = DisplayBlock, message = Some m \<rparr> \<rparr>;
                 w6 = dimOtherModules w5;
                 w7 = startFireworks cfg e w6;
                 w8 = startConfetti cfg e w7
             in (None, case fireworkDuration cfg of
                         Infinite \<Rightarrow> w8
                       | Ms n \<Rightarrow> setTimeout StopCelebration n w8))"

text \<open>
  \<^verbatim>\<open>stopCelebration\<close>, on the wrapper of the document. The
  \<^verbatim>\<open>clearInterval\<close> branch needs a \<^verbatim>\<open>celebrationInterval\<close> and leaves the modelled
  state as it is.
\<close>

definition hide :: "world \<Rightarrow> world" where
  "hide w = w\<lparr> wrapper := map_option (\<lambda>x. x\<lparr> display := DisplayNone \<rparr>) (wrapper w) \<rparr>"

definition stopCelebration :: "world \<Rightarrow> world" where
  "stopCelebration w =
     (let w1 = hide w;
          w2 = w1\<lparr> modules := map (\<lambda>m. m\<lparr> style_filter := [] \<rparr>) (modules w1) \<rparr>;
          w3 = w2\<lparr> celebrating := False, wasCelebrating := False \<rparr>;
          w4 = (if fireworks w3 \<noteq> None then Fireworks_cleanup w3 else w3)
      in Confetti_cleanup w4)"

text \<open>\<^verbatim>\<open>suspend\<close> and \<^verbatim>\<open>resume\<close>.\<close>

definition suspend :: "world \<Rightarrow> world" where
  "suspend w =
     (if celebrating w then
        let w1 = w\<lparr> wasCelebrating := True \<rparr>;
            w2 = (if fireworks w1 \<noteq> None then Fireworks_cleanup w1 else w1);
            w3 = Confetti_cleanup w2;
            w4 = hide w3
        in w4\<lparr> celebrating := False \<rparr>
      else w)"

definition resume :: "config \<Rightarrow> env \<Rightarrow> world \<Rightarrow> error option \<times> world" where
  "resume cfg e w =
     (if wasCelebrating w then
        let w1 = w\<lparr> celebrating := True, wasCelebrating := False \<rparr>;
            w2 = w1\<lparr> wrapper := map_option (\<lambda>x. x\<lparr> display := DisplayBlock \<rparr>) (wrapper w1) \<rparr>
        in celebrateBirthday cfg e None w2
      else (None, w))"

text \<open>
  \<^verbatim>\<open>checkBirthdays\<close>: the \<^verbatim>\<open>forEach\<close> over the configured birthdays, which an
  exception ends, and the guard on the configuration.
\<close>

fun forEach_birthday :: "config \<Rightarrow> env \<Rightarrow> birthday list \<Rightarrow> world \<Rightarrow> error option \<times> world" where
  "forEach_birthday cfg e [] w = (None, w)"
| "forEach_birthday cfg e (b # bs) w =
     (if date b = currentDate e \<and> \<not> celebrating w \<and> \<not> wasCelebrating w then
        (case celebrateBirthday cfg e (Some (name b)) (w\<lparr> celebrating := True \<rparr>) of
           (Some err, w1) \<Rightarrow> (Some err, w1)
         | (None, w1) \<Rightarrow> forEach_birthday cfg e bs w1)
      else forEach_birthday cfg e bs w)"

definition checkBirthdays :: "config \<Rightarrow> env \<Rightarrow> world \<Rightarrow> error option \<times> world" where
  "checkBirthdays cfg e w =
     (case birthdays cfg of
        None \<Rightarrow> (None, w)
      | Some bs \<Rightarrow> forEach_birthday cfg e bs w)"

text \<open>
  \<^verbatim>\<open>start\<close> of the module on a loaded page: the fields are reset, and
  \<^verbatim>\<open>scheduleNextCheck\<close> makes the first check at once (the checks of its interval are
  events below).
\<close>

definition start :: "config \<Rightarrow> env \<Rightarrow> world \<Rightarrow> error option \<times> world" where
  "start cfg e w =
     checkBirthdays cfg e
       (w\<lparr> fireworks := None, celebrating := False, wasCelebrating := False,
           celebrationInterval := None \<rparr>)"

subsection \<open>The event loop\<close>

text \<open>
  What the host and the browser can make run: the check of the interval, the two
  hooks, a call of \<^verbatim>\<open>stopCelebration\<close> from outside, a pending timeout (by its
  position in the list; it leaves the list when it runs), a display frame, a resize
  of the window. An exception that leaves a handler is reported by the browser, and
  the state stays as the handler left it.
\<close>

datatype event = Check | Suspend | Resume | Stop | Timeout nat | Frame | Resize

definition run_callback :: "callback \<Rightarrow> env \<Rightarrow> world \<Rightarrow> world" where
  "run_callback f e w =
     (case f of
        LaunchNext \<Rightarrow> launchNext e w
      | Explode i x0 c \<Rightarrow> explode i x0 c e w
      | RemoveRocket i \<Rightarrow> removeRocket i w
      | FadeSpark i \<Rightarrow> fadeSpark i w
      | RemoveSpark i \<Rightarrow> removeSpark i w
      | FireBurst isInfinite end \<Rightarrow> fireBurst isInfinite end e w
      | StopCelebration \<Rightarrow> stopCelebration w)"

definition handle :: "config \<Rightarrow> env \<times> event \<Rightarrow> world \<Rightarrow> world" where
  "handle cfg ev w =
     (case ev of
        (e, Check) \<Rightarrow> snd (checkBirthdays cfg e w)
      | (e, Suspend) \<Rightarrow> suspend w
      | (e, Resume) \<Rightarrow> snd (resume cfg e w)
      | (e, Stop) \<Rightarrow> stopCelebration w
      | (e, Timeout n) \<Rightarrow>
          (if n < length (timers w)
           then run_callback (snd (timers w ! n)) e
                  (w\<lparr> timers := take n (timers w) @ drop (Suc n) (timers w) \<rparr>)
           else w)
      | (e, Frame) \<Rightarrow> frame w
      | (e, Resize) \<Rightarrow> resize e w)"

text \<open>The state after \<^verbatim>\<open>start\<close> and a list of events, oldest first.\<close>

definition run :: "config \<Rightarrow> env \<Rightarrow> (env \<times> event) list \<Rightarrow> world \<Rightarrow> world" where
  "run cfg e0 evs w = fold (handle cfg) evs (snd (start cfg e0 w))"

subsection \<open>Notions used in the statements\<close>

text \<open>The controller is idle: neither celebrating nor suspended with a pending resume.\<close>

definition idle_state :: "world \<Rightarrow> bool" where
  "idle_state w = (\<not> celebrating w \<and> \<not> wasCelebrating w)"

text \<open>
  The spark that the loop of \<^verbatim>\<open>createExplosion\<close> makes at index \<open>i\<close> when it reaches
  that index with \<open>k\<close> draws made and \<open>n\<close> the next free element identifier.
\<close>

definition made_spark :: "env \<Rightarrow> real \<Rightarrow> real \<Rightarrow> string \<Rightarrow> nat \<Rightarrow> nat \<Rightarrow> nat \<Rightarrow> spark" where
  "made_spark e x0 y0 c i k n =
     (let a = (real i * 360) / real explosion_particleCount + rnd e k * 20;
          v = 100 + rnd e (k + 1) * 100;
          distance = v * (0.7 + rnd e (k + 3) * 0.3)
      in \<lparr> spark_id = n, spark_left = x0, spark_top = y0, spark_color = c,
           spark_angle = a, spark_velocity = v,
           spark_duration = 0.8 + rnd e (k + 2) * 0.6, spark_distance = distance,
           translate_x = cos (a * pi / 180) * distance,
           translate_y = sin (a * pi / 180) * distance,
           spark_faded = False \<rparr>)"

text \<open>
  The particle after one update; the particles a pass of the frame loop keeps; the
  loop at rest; the loop running with one frame requested.
\<close>

definition tick :: "real \<Rightarrow> particle \<Rightarrow> particle" where
  "tick h p = fst (update h p)"

definition survivors :: "real \<Rightarrow> particle list \<Rightarrow> particle list" where
  "survivors h ps = map fst (filter snd (map (update h) ps))"

definition halted :: "world \<Rightarrow> bool" where
  "halted w = (\<not> isAnimating w \<and> frames w = [] \<and> particles w = [])"

definition looping :: "world \<Rightarrow> bool" where
  "looping w = (isAnimating w \<and> particles w \<noteq> [] \<and> length (frames w) = 1)"

subsection \<open>Sample inputs\<close>

text \<open>
  A particle low in a viewport 600 pixels high, falling at 5.3 pixels per tick (the
  tick before, its height fade was \<open>0.1033\<close> and it was still alive), and a particle
  falling through the middle of that viewport.
\<close>

definition low_particle :: particle where
  "low_particle =
     \<lparr> px = 90, py = 5969 / 10, angle = 0, velocity = 45, gravity = 0.25, drag = 0.045,
       wobble = 0, wobbleSpeed = 0, color = ''#ffffff'', psize = 4, opacity = 0.1033,
       vx = 0, vy = 53 / 10 \<rparr>"

definition falling_particle :: particle where
  "falling_particle =
     \<lparr> px = 90, py = 300, angle = 0, velocity = 45, gravity = 0.25, drag = 0.045,
       wobble = 0, wobbleSpeed = 0, color = ''#ffffff'', psize = 4, opacity = 0.6,
       vx = 0, vy = 3.75 \<rparr>"

text \<open>
  A loaded page (the wrapper of \<^verbatim>\<open>getDom\<close> and one other module in the document), a
  clock reading on the second of November with every draw equal to one half, and two
  configurations with one birthday on that day.
\<close>

definition page :: world where
  "page =
     \<lparr> celebrating = False, wasCelebrating = False, celebrationInterval = None,
       fireworks = None, particles = [], isAnimating = False, animationFrame = None,
       width = 1920, height = 1080, canvasAttached = False, fireworkStyles = False,
       nodes = [], wrapper = Some \<lparr> display = Unset, message = None \<rparr>,
       modules = [\<lparr> birthday_class = False, style_filter = [], style_transition = [] \<rparr>],
       timers = [], frames = [], nextFrame = 1, nextId = 0, draws = 0, calls = [] \<rparr>"

definition nov2 :: env where
  "nov2 =
     \<lparr> now = 1000000, getMonth = 10, getDate = 2, rnd = (\<lambda>k. 1 / 2),
       translation = Untranslated, rocketTop = 200, innerWidth = 1920, innerHeight = 1080 \<rparr>"

definition anna :: config where
  "anna =
     \<lparr> birthdays = Some [\<lparr> name = ''Anna'', date = ''11-02'' \<rparr>],
       fireworkDuration = Infinite, confettiDuration = Infinite \<rparr>"

definition anna5s :: config where
  "anna5s =
     \<lparr> birthdays = Some [\<lparr> name = ''Anna'', date = ''11-02'' \<rparr>],
       fireworkDuration = Ms 5000, confettiDuration = Ms 5000 \<rparr>"

text \<open>The page in the middle of a celebration: one rocket, one particle, one frame requested.\<close>

definition busy_page :: world where
  "busy_page =
     page\<lparr> celebrating := True, fireworks := Some \<lparr> endTime = Infinity \<rparr>,
           particles := [falling_particle], isAnimating := True, animationFrame := Some 1,
           canvasAttached := True, fireworkStyles := True,
           nodes := [Rocket \<lparr> rocket_id = 0, rocket_left = 985 \<rparr>],
           timers := [(800, Explode 0 985 ''#0000ff''), (1000, RemoveRocket 0),
                      (600, LaunchNext), (1000, FireBurst True Infinity)],
           frames := [1], nextFrame := 2, nextId := 1, draws := 3 \<rparr>"

text \<open>
  The same page in a window 600 pixels high, with the low particle as its only
  particle.
\<close>

definition dusk_page :: world where
  "dusk_page = busy_page\<lparr> particles := [low_particle], height := 600 \<rparr>"

text \<open>A window 40 pixels wide, every draw equal to \<open>0.9\<close>.\<close>

definition narrow :: env where
  "narrow = nov2\<lparr> innerWidth := 40, rnd := (\<lambda>k. 9 / 10) \<rparr>"

section \<open>Properties\<close>

subsection \<open>What the emitters leave alone\<close>

text \<open>
  The functions of the two emitters and of the browser never write the fields of the
  controller (the two flags, the trace of calls), the wrapper or the host's modules.
\<close>

lemma fold_keeps:
  assumes "\<And>a s. g (f a s) = g s"
  shows "g (fold f xs s) = g s"
  using assms by (induction xs arbitrary: s) simp_all

lemma setTimeout_keeps [simp]:
  "celebrating (setTimeout f d w) = celebrating w"
  "wasCelebrating (setTimeout f d w) = wasCelebrating w"
  "calls (setTimeout f d w) = calls w"
  "wrapper (setTimeout f d w) = wrapper w"
  "modules (setTimeout f d w) = modules w"
  "fireworks (setTimeout f d w) = fireworks w"
  by (simp_all add: setTimeout_def)

lemma requestAnimationFrame_keeps [simp]:
  "celebrating (requestAnimationFrame w) = celebrating w"
  "wasCelebrating (requestAnimationFrame w) = wasCelebrating w"
  "calls (requestAnimationFrame w) = calls w"
  "wrapper (requestAnimationFrame w) = wrapper w"
  "modules (requestAnimationFrame w) = modules w"
  "fireworks (requestAnimationFrame w) = fireworks w"
  by (simp_all add: requestAnimationFrame_def)

lemma animate_keeps [simp]:
  "celebrating (animate w) = celebrating w"
  "wasCelebrating (animate w) = wasCelebrating w"
  "calls (animate w) = calls w"
  "wrapper (animate w) = wrapper w"
  "modules (animate w) = modules w"
  "fireworks (animate w) = fireworks w"
  by (simp_all add: animate_def Let_def)

lemma frame_keeps [simp]:
  "celebrating (frame w) = celebrating w"
  "wasCelebrating (frame w) = wasCelebrating w"
  "calls (frame w) = calls w"
  "wrapper (frame w) = wrapper w"
  "modules (frame w) = modules w"
  "fireworks (frame w) = fireworks w"
  by (simp_all add: frame_def fold_keeps)

lemma init_keeps [simp]:
  "celebrating (init w) = celebrating w"
  "wasCelebrating (init w) = wasCelebrating w"
  "calls (init w) = calls w"
  "wrapper (init w) = wrapper w"
  "modules (init w) = modules w"
  "fireworks (init w) = fireworks w"
  by (simp_all add: init_def)

lemma fire_keeps [simp]:
  "celebrating (fire e w) = celebrating w"
  "wasCelebrating (fire e w) = wasCelebrating w"
  "calls (fire e w) = calls w"
  "wrapper (fire e w) = wrapper w"
  "modules (fire e w) = modules w"
  "fireworks (fire e w) = fireworks w"
  by (simp_all add: fire_def Let_def)

lemma Confetti_cleanup_keeps [simp]:
  "celebrating (Confetti_cleanup w) = celebrating w"
  "wasCelebrating (Confetti_cleanup w) = wasCelebrating w"
  "calls (Confetti_cleanup w) = calls w"
  "wrapper (Confetti_cleanup w) = wrapper w"
  "modules (Confetti_cleanup w) = modules w"
  "fireworks (Confetti_cleanup w) = fireworks w"
  by (simp_all add: Confetti_cleanup_def cancelAnimationFrame_def Let_def split: option.splits)

lemma resize_keeps [simp]:
  "celebrating (resize e w) = celebrating w"
  "wasCelebrating (resize e w) = wasCelebrating w"
  "calls (resize e w) = calls w"
  "wrapper (resize e w) = wrapper w"
  "modules (resize e w) = modules w"
  "fireworks (resize e w) = fireworks w"
  by (simp_all add: resize_def)

lemma createSpark_keeps [simp]:
  "celebrating (snd (createSpark e x0 y0 c a v w)) = celebrating w"
  "wasCelebrating (snd (createSpark e x0 y0 c a v w)) = wasCelebrating w"
  "calls (snd (createSpark e x0 y0 c a v w)) = calls w"
  "wrapper (snd (createSpark e x0 y0 c a v w)) = wrapper w"
  "modules (snd (createSpark e x0 y0 c a v w)) = modules w"
  "fireworks (snd (createSpark e x0 y0 c a v w)) = fireworks w"
  by (simp_all add: createSpark_def Let_def)

lemma explosion_step_keeps [simp]:
  "celebrating (explosion_step e x0 y0 c i w) = celebrating w"
  "wasCelebrating (explosion_step e x0 y0 c i w) = wasCelebrating w"
  "calls (explosion_step e x0 y0 c i w) = calls w"
  "wrapper (explosion_step e x0 y0 c i w) = wrapper w"
  "modules (explosion_step e x0 y0 c i w) = modules w"
  "fireworks (explosion_step e x0 y0 c i w) = fireworks w"
  by (simp_all add: explosion_step_def Let_def split_beta)

lemma createExplosion_keeps [simp]:
  "celebrating (createExplosion e x0 y0 c w) = celebrating w"
  "wasCelebrating (createExplosion e x0 y0 c w) = wasCelebrating w"
  "calls (createExplosion e x0 y0 c w) = calls w"
  "wrapper (createExplosion e x0 y0 c w) = wrapper w"
  "modules (createExplosion e x0 y0 c w) = modules w"
  "fireworks (createExplosion e x0 y0 c w) = fireworks w"
  by (simp_all add: createExplosion_def fold_keeps)

lemma explode_keeps [simp]:
  "celebrating (explode i x0 c e w) = celebrating w"
  "wasCelebrating (explode i x0 c e w) = wasCelebrating w"
  "calls (explode i x0 c e w) = calls w"
  "wrapper (explode i x0 c e w) = wrapper w"
  "modules (explode i x0 c e w) = modules w"
  "fireworks (explode i x0 c e w) = fireworks w"
  by (simp_all add: explode_def Let_def)

lemma node_timeouts_keep [simp]:
  "celebrating (removeRocket i w) = celebrating w"
  "wasCelebrating (removeRocket i w) = wasCelebrating w"
  "celebrating (fadeSpark i w) = celebrating w"
  "wasCelebrating (fadeSpark i w) = wasCelebrating w"
  "celebrating (removeSpark i w) = celebrating w"
  "wasCelebrating (removeSpark i w) = wasCelebrating w"
  by (simp_all add: removeRocket_def fadeSpark_def removeSpark_def)

lemma launch_keeps [simp]:
  "celebrating (launch e w) = celebrating w"
  "wasCelebrating (launch e w) = wasCelebrating w"
  "calls (launch e w) = calls w"
  "wrapper (launch e w) = wrapper w"
  "modules (launch e w) = modules w"
  "fireworks (launch e w) = fireworks w"
  by (simp_all add: launch_def createRocket_def Let_def)

lemma launchNext_keeps [simp]:
  "celebrating (launchNext e w) = celebrating w"
  "wasCelebrating (launchNext e w) = wasCelebrating w"
  "calls (launchNext e w) = calls w"
  "wrapper (launchNext e w) = wrapper w"
  "modules (launchNext e w) = modules w"
  "fireworks (launchNext e w) = fireworks w"
  by (simp_all add: launchNext_def Let_def)

lemma set_endTime_keeps [simp]:
  "celebrating (set_endTime t w) = celebrating w"
  "wasCelebrating (set_endTime t w) = wasCelebrating w"
  "calls (set_endTime t w) = calls w"
  "wrapper (set_endTime t w) = wrapper w"
  "modules (set_endTime t w) = modules w"
  by (simp_all add: set_endTime_def)

lemma Fireworks_start_keeps [simp]:
  "celebrating (Fireworks_start d e w) = celebrating w"
  "wasCelebrating (Fireworks_start d e w) = wasCelebrating w"
  "calls (Fireworks_start d e w) = calls w"
  "wrapper (Fireworks_start d e w) = wrapper w"
  "modules (Fireworks_start d e w) = modules w"
  by (simp_all add: Fireworks_start_def)

lemma Fireworks_cleanup_keeps [simp]:
  "celebrating (Fireworks_cleanup w) = celebrating w"
  "wasCelebrating (Fireworks_cleanup w) = wasCelebrating w"
  "calls (Fireworks_cleanup w) = calls w"
  "wrapper (Fireworks_cleanup w) = wrapper w"
  "modules (Fireworks_cleanup w) = modules w"
  by (simp_all add: Fireworks_cleanup_def)

lemma new_Fireworks_keeps [simp]:
  "celebrating (new_Fireworks w) = celebrating w"
  "wasCelebrating (new_Fireworks w) = wasCelebrating w"
  "calls (new_Fireworks w) = calls w"
  "wrapper (new_Fireworks w) = wrapper w"
  "modules (new_Fireworks w) = modules w"
  by (simp_all add: new_Fireworks_def createStyleSheet_def)

lemma fireBurst_keeps [simp]:
  "celebrating (fireBurst isInfinite end e w) = celebrating w"
  "wasCelebrating (fireBurst isInfinite end e w) = wasCelebrating w"
  "calls (fireBurst isInfinite end e w) = calls w"
  by (simp_all add: fireBurst_def Let_def)

lemma startConfetti_keeps [simp]:
  "celebrating (startConfetti cfg e w) = celebrating w"
  "wasCelebrating (startConfetti cfg e w) = wasCelebrating w"
  "calls (startConfetti cfg e w) = calls w"
  "wrapper (startConfetti cfg e w) = wrapper w"
  "modules (startConfetti cfg e w) = modules w"
  by (simp_all add: startConfetti_def Let_def)

lemma dimOtherModules_keeps [simp]:
  "celebrating (dimOtherModules w) = celebrating w"
  "wasCelebrating (dimOtherModules w) = wasCelebrating w"
  "calls (dimOtherModules w) = calls w"
  "wrapper (dimOtherModules w) = wrapper w"
  by (simp_all add: dimOtherModules_def)

lemma createWrapper_keeps [simp]:
  "celebrating (createWrapper w) = celebrating w"
  "wasCelebrating (createWrapper w) = wasCelebrating w"
  "calls (createWrapper w) = calls w"
  by (simp_all add: createWrapper_def)

lemma hide_keeps [simp]:
  "celebrating (hide w) = celebrating w"
  "wasCelebrating (hide w) = wasCelebrating w"
  "calls (hide w) = calls w"
  by (simp_all add: hide_def)

text \<open>
  \<^verbatim>\<open>celebrateBirthday\<close> writes neither flag, and appends its argument to the trace.
\<close>

lemma celebrateBirthday_flags:
  "celebrating (snd (celebrateBirthday cfg e nm w)) = celebrating w"
  "wasCelebrating (snd (celebrateBirthday cfg e nm w)) = wasCelebrating w"
  "calls (snd (celebrateBirthday cfg e nm w)) = calls w @ [nm]"
  by (simp_all add: celebrateBirthday_def startFireworks_def Let_def
        split: sum.splits duration.splits)

lemma stopCelebration_flags:
  "celebrating (stopCelebration w) = False"
  "wasCelebrating (stopCelebration w) = False"
  "calls (stopCelebration w) = calls w"
  by (simp_all add: stopCelebration_def Let_def)

lemma suspend_flags:
  "celebrating (suspend w) = False"
  "wasCelebrating (suspend w) = (celebrating w \<or> wasCelebrating w)"
  "calls (suspend w) = calls w"
  by (simp_all add: suspend_def Let_def)

lemma resume_flags:
  "celebrating (snd (resume cfg e w)) = (celebrating w \<or> wasCelebrating w)"
  "wasCelebrating (snd (resume cfg e w)) = False"
  by (simp_all add: resume_def Let_def celebrateBirthday_flags)

lemma run_callback_flags:
  "celebrating (run_callback f e w) = (celebrating w \<and> f \<noteq> StopCelebration)"
  "wasCelebrating (run_callback f e w) = (wasCelebrating w \<and> f \<noteq> StopCelebration)"
  by (simp_all add: run_callback_def stopCelebration_flags split: callback.splits)

subsection \<open>Opacity and liveness of a particle\<close>

lemma velocityFade_range: "0 \<le> velocityFade p \<and> velocityFade p \<le> 1"
  by (simp add: velocityFade_def)

lemma velocityFade_vertical: "vx p = 0 \<Longrightarrow> velocityFade p = min 1 (\<bar>vy p\<bar> / 6)"
  by (simp add: velocityFade_def)

lemma heightFade_nonneg:
  assumes "0 < h" and "py p \<le> h"
  shows "0 \<le> heightFade h p"
proof -
  have "py p - h * 0.95 \<le> h * 0.05"
    using assms by simp
  then have "(py p - h * 0.95) / (h * 0.05) \<le> 1"
    using assms by (simp add: divide_le_eq)
  then show ?thesis
    by (simp add: heightFade_def)
qed

text \<open>
  C6, as stated, at the low particle: the opacity assigned by the update is negative.
\<close>

theorem update_opacity_range_counterexample:
  "\<not> (0 \<le> opacity (fst (update 600 low_particle)) \<and>
      opacity (fst (update 600 low_particle)) \<le> 1)"
proof -
  have "heightFade 600 (physics low_particle) < 0"
    by (simp add: heightFade_def physics_def low_particle_def)
  then have "opacity (fst (update 600 low_particle)) < 0"
    by (simp add: update_def Let_def min_less_iff_disj)
  then show ?thesis by simp
qed

text \<open>
  C6, amended: in a viewport of positive height, the opacity assigned by the update is
  the minimum of the velocity fade and the height fade and is at most 1; it is at least
  0 whenever the new vertical position is at most the viewport height; the particle is
  reported alive exactly when the opacity exceeds 0.1 and the new vertical position is
  below the viewport height; so the opacity of a particle reported alive lies in
  \<open>(0.1, 1]\<close>.
\<close>

theorem update_opacity_alive:
  assumes "0 < h"
  shows "opacity (fst (update h p)) =
           min (velocityFade (physics p)) (heightFade h (physics p))
         \<and> opacity (fst (update h p)) \<le> 1
         \<and> (py (fst (update h p)) \<le> h \<longrightarrow> 0 \<le> opacity (fst (update h p)))
         \<and> (snd (update h p) \<longleftrightarrow>
              opacity (fst (update h p)) > 0.1 \<and> py (fst (update h p)) < h)
         \<and> (snd (update h p) \<longrightarrow>
              0.1 < opacity (fst (update h p)) \<and> opacity (fst (update h p)) \<le> 1)"
proof -
  let ?q = "physics p"
  have op: "opacity (fst (update h p)) = min (velocityFade ?q) (heightFade h ?q)"
    by (simp add: update_def Let_def)
  have yy: "py (fst (update h p)) = py ?q"
    by (simp add: update_def Let_def)
  have le1: "min (velocityFade ?q) (heightFade h ?q) \<le> 1"
    using velocityFade_range [of ?q] by (simp add: min_le_iff_disj)
  have ge0: "py ?q \<le> h \<Longrightarrow> 0 \<le> min (velocityFade ?q) (heightFade h ?q)"
    using velocityFade_range [of ?q] heightFade_nonneg [OF assms, of ?q] by simp
  have alive: "snd (update h p) \<longleftrightarrow>
      opacity (fst (update h p)) > 0.1 \<and> py (fst (update h p)) < h"
    by (auto simp add: update_def Let_def)
  show ?thesis
    using op yy le1 ge0 alive by simp
qed

theorem update_opacity_alive_witness:
  "(0::real) < 600 \<and>
   py (fst (update 600 falling_particle)) \<le> 600 \<and>
   snd (update 600 falling_particle) \<and>
   0 \<le> opacity (fst (update 600 falling_particle)) \<and>
   0.1 < opacity (fst (update 600 falling_particle)) \<and>
   opacity (fst (update 600 falling_particle)) \<le> 1"
proof -
  have h: "(0::real) < 600" by simp
  have v: "vx (physics falling_particle) = 0"
    by (simp add: physics_def falling_particle_def)
  have vf: "velocityFade (physics falling_particle) = 382 / 600"
    by (simp add: velocityFade_vertical [OF v]) (simp add: physics_def falling_particle_def)
  have hf: "heightFade 600 (physics falling_particle) = 1"
    by (simp add: heightFade_def physics_def falling_particle_def)
  have yy: "py (fst (update 600 falling_particle)) = 30375 / 100"
    by (simp add: update_def Let_def physics_def falling_particle_def)
  have alive: "snd (update 600 falling_particle)"
    using vf hf yy by (simp add: update_def Let_def)
  note t = update_opacity_alive [OF h, of falling_particle]
  have le: "py (fst (update 600 falling_particle)) \<le> 600"
    using yy by simp
  have a: "0 \<le> opacity (fst (update 600 falling_particle))"
    using t le by blast
  have b: "0.1 < opacity (fst (update 600 falling_particle)) \<and>
           opacity (fst (update 600 falling_particle)) \<le> 1"
    using t alive by blast
  show ?thesis
    using h le alive a b by blast
qed

subsection \<open>The two session flags\<close>

text \<open>A check in a state that is not idle does nothing at all.\<close>

lemma forEach_birthday_dropped:
  "celebrating w \<or> wasCelebrating w \<Longrightarrow> forEach_birthday cfg e bs w = (None, w)"
  by (induction bs) auto

text \<open>
  In an idle state the loop calls \<^verbatim>\<open>celebrateBirthday\<close> for the first birthday of
  the day and for no other.
\<close>

lemma forEach_birthday_first:
  "idle_state w \<Longrightarrow>
   forEach_birthday cfg e bs w =
     (case find (\<lambda>b. date b = currentDate e) bs of
        None \<Rightarrow> (None, w)
      | Some b \<Rightarrow> celebrateBirthday cfg e (Some (name b)) (w\<lparr> celebrating := True \<rparr>))"
proof (induction bs)
  case Nil
  then show ?case by simp
next
  case (Cons b bs)
  show ?case
  proof (cases "date b = currentDate e")
    case False
    with Cons show ?thesis by simp
  next
    case True
    let ?r = "celebrateBirthday cfg e (Some (name b)) (w\<lparr> celebrating := True \<rparr>)"
    have c: "celebrating (snd ?r)"
      by (simp add: celebrateBirthday_flags)
    have "forEach_birthday cfg e (b # bs) w = ?r"
    proof (cases ?r)
      case (Pair err w1)
      with c have "celebrating w1" by simp
      then have "forEach_birthday cfg e bs w1 = (None, w1)"
        by (simp add: forEach_birthday_dropped)
      with Pair True Cons.prems show ?thesis
        by (cases err) (simp_all add: idle_state_def)
    qed
    with True show ?thesis by simp
  qed
qed

lemma checkBirthdays_cases:
  "snd (checkBirthdays cfg e w) = w \<or>
   (idle_state w \<and> celebrating (snd (checkBirthdays cfg e w)) \<and>
    (\<exists>b::birthday. calls (snd (checkBirthdays cfg e w)) = calls w @ [Some (name b)]))"
proof (cases "idle_state w")
  case False
  then show ?thesis
    by (auto simp add: idle_state_def checkBirthdays_def forEach_birthday_dropped
          split: option.splits)
next
  case True
  show ?thesis
  proof (cases "birthdays cfg")
    case None
    then show ?thesis by (simp add: checkBirthdays_def)
  next
    case (Some bs)
    show ?thesis
    proof (cases "find (\<lambda>b. date b = currentDate e) bs")
      case None
      with Some True show ?thesis
        by (simp add: checkBirthdays_def forEach_birthday_first)
    next
      case (Some b)
      with \<open>birthdays cfg = Some bs\<close> True
      have r: "checkBirthdays cfg e w =
               celebrateBirthday cfg e (Some (name b)) (w\<lparr> celebrating := True \<rparr>)"
        by (simp add: checkBirthdays_def forEach_birthday_first)
      have "calls (snd (checkBirthdays cfg e w)) = calls w @ [Some (name b)]"
        by (simp add: r celebrateBirthday_flags)
      moreover have "celebrating (snd (checkBirthdays cfg e w))"
        by (simp add: r celebrateBirthday_flags)
      ultimately show ?thesis
        using True by blast
    qed
  qed
qed

lemma checkBirthdays_flags:
  assumes "\<not> (celebrating w \<and> wasCelebrating w)"
  shows "\<not> (celebrating (snd (checkBirthdays cfg e w)) \<and>
            wasCelebrating (snd (checkBirthdays cfg e w)))"
proof (cases "idle_state w")
  case False
  then have "snd (checkBirthdays cfg e w) = w"
    by (auto simp add: idle_state_def checkBirthdays_def forEach_birthday_dropped
          split: option.splits)
  with assms show ?thesis by simp
next
  case True
  then have "\<not> wasCelebrating (snd (checkBirthdays cfg e w))"
    by (auto simp add: checkBirthdays_def forEach_birthday_first celebrateBirthday_flags
          idle_state_def split: option.splits)
  then show ?thesis by simp
qed

lemma handle_flags:
  assumes "\<not> (celebrating w \<and> wasCelebrating w)"
  shows "\<not> (celebrating (handle cfg ev w) \<and> wasCelebrating (handle cfg ev w))"
proof (cases ev)
  case (Pair e a)
  show ?thesis
  proof (cases a)
    case Check
    with Pair checkBirthdays_flags [OF assms] show ?thesis
      by (simp add: handle_def)
  next
    case Suspend
    with Pair show ?thesis
      by (simp add: handle_def suspend_flags)
  next
    case Resume
    with Pair show ?thesis
      by (simp add: handle_def resume_flags)
  next
    case Stop
    with Pair show ?thesis
      by (simp add: handle_def stopCelebration_flags)
  next
    case (Timeout n)
    with Pair assms show ?thesis
      by (auto simp add: handle_def run_callback_flags)
  next
    case Frame
    with Pair assms show ?thesis
      by (simp add: handle_def)
  next
    case Resize
    with Pair assms show ?thesis
      by (simp add: handle_def)
  qed
qed

lemma fold_handle_flags:
  "\<not> (celebrating w \<and> wasCelebrating w) \<Longrightarrow>
   \<not> (celebrating (fold (handle cfg) evs w) \<and> wasCelebrating (fold (handle cfg) evs w))"
proof (induction evs arbitrary: w)
  case Nil
  then show ?case by simp
next
  case (Cons ev evs)
  from Cons.prems have "\<not> (celebrating (handle cfg ev w) \<and> wasCelebrating (handle cfg ev w))"
    by (rule handle_flags)
  then show ?case
    using Cons.IH by simp
qed

text \<open>
  C10: after \<^verbatim>\<open>start\<close> on any page and any list of events (checks, \<^verbatim>\<open>suspend\<close>,
  \<^verbatim>\<open>resume\<close>, \<^verbatim>\<open>stopCelebration\<close> called directly or by its timer, any other
  pending timeout, frames, resizes), in the state between two handlers
  \<^verbatim>\<open>celebrating\<close> and \<^verbatim>\<open>_wasCelebrating\<close> are not both true.
\<close>

theorem flags_never_both:
  "\<not> (celebrating (run cfg e0 evs w) \<and> wasCelebrating (run cfg e0 evs w))"
proof -
  let ?w0 = "w\<lparr> fireworks := None, celebrating := False, wasCelebrating := False,
                celebrationInterval := None \<rparr>"
  have "\<not> (celebrating ?w0 \<and> wasCelebrating ?w0)"
    by simp
  then have "\<not> (celebrating (snd (start cfg e0 w)) \<and> wasCelebrating (snd (start cfg e0 w)))"
    unfolding start_def by (rule checkBirthdays_flags)
  then show ?thesis
    unfolding run_def by (rule fold_handle_flags)
qed

subsection \<open>Triggers in a state that is not idle\<close>

lemma handle_Check: "handle cfg (e, Check) w = snd (checkBirthdays cfg e w)"
  by (simp add: handle_def)

lemma checkBirthdays_dropped:
  "celebrating w \<or> wasCelebrating w \<Longrightarrow> checkBirthdays cfg e w = (None, w)"
  by (simp add: checkBirthdays_def forEach_birthday_dropped split: option.splits)

lemma checks_dropped:
  "celebrating w \<or> wasCelebrating w \<Longrightarrow>
   fold (handle cfg) (map (\<lambda>e. (e, Check)) es) w = w"
proof (induction es)
  case Nil
  show ?case by simp
next
  case (Cons e es)
  then show ?case
    by (simp add: handle_Check checkBirthdays_dropped)
qed

lemma checks_start_at_most_one:
  "length (calls (fold (handle cfg) (map (\<lambda>e. (e, Check)) es) w)) \<le> Suc (length (calls w))"
proof (induction es arbitrary: w)
  case Nil
  show ?case by simp
next
  case (Cons e es)
  let ?w1 = "snd (checkBirthdays cfg e w)"
  have step: "fold (handle cfg) (map (\<lambda>e. (e, Check)) (e # es)) w =
              fold (handle cfg) (map (\<lambda>e. (e, Check)) es) ?w1"
    by (simp add: handle_Check)
  from checkBirthdays_cases [of cfg e w] show ?case
  proof
    assume "?w1 = w"
    with step Cons.IH [of w] show ?thesis by simp
  next
    assume a: "idle_state w \<and> celebrating ?w1 \<and>
               (\<exists>b::birthday. calls ?w1 = calls w @ [Some (name b)])"
    then have "fold (handle cfg) (map (\<lambda>e. (e, Check)) es) ?w1 = ?w1"
      by (simp add: checks_dropped)
    with step a show ?thesis by auto
  qed
qed

text \<open>
  C1: for every sequence of periodic checks, from a state in which \<^verbatim>\<open>celebrating\<close>
  or \<^verbatim>\<open>_wasCelebrating\<close> is true the checks change nothing (no call of
  \<^verbatim>\<open>celebrateBirthday\<close>, no timer, no emitter started); from any state the whole
  sequence calls \<^verbatim>\<open>celebrateBirthday\<close> at most once; and a check that does call it
  ran in an idle state and leaves \<^verbatim>\<open>celebrating\<close> true.
\<close>

theorem trigger_dropped_unless_idle:
  "(celebrating w \<or> wasCelebrating w \<longrightarrow>
      checkBirthdays cfg e w = (None, w) \<and>
      fold (handle cfg) (map (\<lambda>e. (e, Check)) es) w = w)
   \<and> length (calls (fold (handle cfg) (map (\<lambda>e. (e, Check)) es) w)) \<le> Suc (length (calls w))
   \<and> (calls (snd (checkBirthdays cfg e w)) \<noteq> calls w \<longrightarrow>
        \<not> celebrating w \<and> \<not> wasCelebrating w \<and> celebrating (snd (checkBirthdays cfg e w)))"
proof -
  have a: "celebrating w \<or> wasCelebrating w \<Longrightarrow> checkBirthdays cfg e w = (None, w)"
    by (rule checkBirthdays_dropped)
  have b: "calls (snd (checkBirthdays cfg e w)) \<noteq> calls w \<Longrightarrow>
           \<not> celebrating w \<and> \<not> wasCelebrating w \<and> celebrating (snd (checkBirthdays cfg e w))"
    using checkBirthdays_cases [of cfg e w] by (auto simp add: idle_state_def)
  show ?thesis
    using a b checks_dropped [of w cfg es] checks_start_at_most_one [of cfg es w] by blast
qed

lemma currentDate_nov2: "currentDate nov2 = ''11-02''"
  by (simp add: currentDate_def nov2_def padStart2_def toString.simps digit_def)

lemma check_anna_page:
  "checkBirthdays anna nov2 page =
     celebrateBirthday anna nov2 (Some ''Anna'') (page\<lparr> celebrating := True \<rparr>)"
proof -
  have "idle_state page"
    by (simp add: idle_state_def page_def)
  then have f: "forEach_birthday anna nov2 bs page =
      (case find (\<lambda>b. date b = currentDate nov2) bs of
         None \<Rightarrow> (None, page)
       | Some b \<Rightarrow> celebrateBirthday anna nov2 (Some (name b)) (page\<lparr> celebrating := True \<rparr>))"
    for bs
    by (rule forEach_birthday_first)
  have b: "birthdays anna = Some [\<lparr> name = ''Anna'', date = ''11-02'' \<rparr>]"
    by (simp add: anna_def)
  show ?thesis
    by (simp add: checkBirthdays_def b f currentDate_nov2 del: forEach_birthday.simps)
qed

theorem trigger_dropped_unless_idle_witness:
  "celebrating (page\<lparr> celebrating := True \<rparr>)
   \<and> checkBirthdays anna nov2 (page\<lparr> celebrating := True \<rparr>) = (None, page\<lparr> celebrating := True \<rparr>)
   \<and> fold (handle anna) (map (\<lambda>e. (e, Check)) [nov2, nov2]) (page\<lparr> celebrating := True \<rparr>)
       = page\<lparr> celebrating := True \<rparr>
   \<and> calls (snd (checkBirthdays anna nov2 page)) \<noteq> calls page
   \<and> \<not> celebrating page \<and> \<not> wasCelebrating page
   \<and> celebrating (snd (checkBirthdays anna nov2 page))"
proof -
  have busy: "celebrating (page\<lparr> celebrating := True \<rparr>)"
    by simp
  have started: "calls (snd (checkBirthdays anna nov2 page)) \<noteq> calls page"
    by (simp add: check_anna_page celebrateBirthday_flags)
  show ?thesis
    using busy started
      trigger_dropped_unless_idle [of "page\<lparr> celebrating := True \<rparr>" anna nov2 "[nov2, nov2]"]
      trigger_dropped_unless_idle [of page anna nov2 "[]"]
    by blast
qed

subsection \<open>Resuming a suspended celebration\<close>

lemma draws_before_message [simp]:
  "draws (new_Fireworks w) = draws w"
  "draws (init w) = draws w"
  "draws (createWrapper w) = draws w"
  by (simp_all add: new_Fireworks_def createStyleSheet_def init_def createWrapper_def)

text \<open>
  A call of \<^verbatim>\<open>celebrateBirthday\<close> whose message is found ends without exception,
  with the message in the wrapper and the wrapper shown.
\<close>

lemma celebrateBirthday_wrapper:
  assumes "getRandomMessage e (draws w) nm = Inr m"
  shows "fst (celebrateBirthday cfg e nm w) = None"
    and "wrapper (snd (celebrateBirthday cfg e nm w)) =
           Some \<lparr> display = DisplayBlock, message = Some m \<rparr>"
  using assms
  by (simp_all add: celebrateBirthday_def startFireworks_def Let_def split: duration.splits)

lemma resume_restarts:
  "wasCelebrating w \<Longrightarrow>
   resume cfg e w =
     celebrateBirthday cfg e None
       (w\<lparr> celebrating := True, wasCelebrating := False,
           wrapper := map_option (\<lambda>x. x\<lparr> display := DisplayBlock \<rparr>) (wrapper w) \<rparr>)"
  by (simp add: resume_def Let_def)

lemma message_nov2:
  "getRandomMessage nov2 k (Some ''Anna'') = Inr ''Best wishes on your special day, Anna!''"
  "getRandomMessage nov2 k None = Inr ''Best wishes on your special day, undefined!''"
  by (simp_all add: getRandomMessage_def nov2_def pick_def defaultTranslations_def toStr_def)

lemma start_page: "start anna nov2 page = checkBirthdays anna nov2 page"
proof -
  have "page\<lparr> fireworks := None, celebrating := False, wasCelebrating := False,
               celebrationInterval := None \<rparr> = page"
    by (simp add: page_def)
  then show ?thesis
    by (simp add: start_def)
qed

text \<open>
  C3, on the page of the samples: the birthday of Anna starts a celebration with her
  name in the message; after \<^verbatim>\<open>suspend\<close> and \<^verbatim>\<open>resume\<close> the controller is celebrating
  again and the wrapper is shown, but \<^verbatim>\<open>celebrateBirthday\<close> was called with
  \<^verbatim>\<open>undefined\<close> and the message names nobody.
\<close>

theorem resume_forgets_name:
  "wrapper (run anna nov2 [] page) =
     Some \<lparr> display = DisplayBlock,
            message = Some ''Best wishes on your special day, Anna!'' \<rparr>
   \<and> celebrating (run anna nov2 [(nov2, Suspend), (nov2, Resume)] page)
   \<and> calls (run anna nov2 [(nov2, Suspend), (nov2, Resume)] page) = [Some ''Anna'', None]
   \<and> wrapper (run anna nov2 [(nov2, Suspend), (nov2, Resume)] page) =
       Some \<lparr> display = DisplayBlock,
              message = Some ''Best wishes on your special day, undefined!'' \<rparr>"
proof -
  let ?w1 = "snd (celebrateBirthday anna nov2 (Some ''Anna'') (page\<lparr> celebrating := True \<rparr>))"
  let ?w2 = "suspend ?w1"
  let ?w3 = "snd (resume anna nov2 ?w2)"
  have r0: "run anna nov2 [] page = ?w1"
    by (simp add: run_def start_page check_anna_page)
  have r3: "run anna nov2 [(nov2, Suspend), (nov2, Resume)] page = ?w3"
    by (simp add: run_def start_page check_anna_page handle_def)
  have c1: "celebrating ?w1" and k1: "calls ?w1 = [Some ''Anna'']"
    by (simp_all add: celebrateBirthday_flags page_def)
  have m1: "wrapper ?w1 =
      Some \<lparr> display = DisplayBlock, message = Some ''Best wishes on your special day, Anna!'' \<rparr>"
    by (rule celebrateBirthday_wrapper) (rule message_nov2)
  have s2: "wasCelebrating ?w2" and k2: "calls ?w2 = [Some ''Anna'']"
    using c1 k1 by (simp_all add: suspend_flags)
  let ?w2' = "?w2\<lparr> celebrating := True, wasCelebrating := False,
                   wrapper := map_option (\<lambda>x. x\<lparr> display := DisplayBlock \<rparr>) (wrapper ?w2) \<rparr>"
  have w3: "?w3 = snd (celebrateBirthday anna nov2 None ?w2')"
    using s2 by (simp add: resume_restarts)
  have c3: "celebrating ?w3"
    unfolding w3 by (simp add: celebrateBirthday_flags)
  have k3: "calls ?w3 = [Some ''Anna'', None]"
    unfolding w3 using k2 by (simp add: celebrateBirthday_flags)
  have m3: "wrapper ?w3 =
      Some \<lparr> display = DisplayBlock,
             message = Some ''Best wishes on your special day, undefined!'' \<rparr>"
    unfolding w3 by (rule celebrateBirthday_wrapper) (rule message_nov2)
  show ?thesis
    unfolding r0 r3 using m1 c3 k3 m3 by blast
qed

subsection \<open>The confetti burst chain\<close>

lemma animate_timers [simp]: "timers (animate w) = timers w"
  by (simp add: animate_def requestAnimationFrame_def Let_def)

lemma fire_timers [simp]: "timers (fire e w) = timers w"
  by (simp add: fire_def Let_def)




subsection \<open>The launch chain of the fireworks\<close>

lemma launchNext_stopped: "\<not> running e w \<Longrightarrow> launchNext e w = w"
  by (simp add: launchNext_def)





subsection \<open>Tearing the emitters down\<close>

lemma Fireworks_cleanup_twice: "Fireworks_cleanup (Fireworks_cleanup w) = Fireworks_cleanup w"
  by (simp add: Fireworks_cleanup_def set_endTime_def option.map_comp comp_def)

lemma Confetti_cleanup_twice: "Confetti_cleanup (Confetti_cleanup w) = Confetti_cleanup w"
  by (simp add: Confetti_cleanup_def cancelAnimationFrame_def Let_def split: option.splits)

lemma Fireworks_cleanup_state:
  "nodes (Fireworks_cleanup w) = []"
  "fireworks w = Some f \<Longrightarrow> fireworks (Fireworks_cleanup w) = Some (f\<lparr> endTime := Finite 0 \<rparr>)"
  "0 \<le> now e \<Longrightarrow> \<not> running e (Fireworks_cleanup w)"
  by (auto simp add: Fireworks_cleanup_def set_endTime_def running_def split: option.splits)

lemma Confetti_cleanup_state:
  "particles (Confetti_cleanup w) = []"
  "\<not> isAnimating (Confetti_cleanup w)"
  "\<not> canvasAttached (Confetti_cleanup w)"
  "animationFrame w = Some i \<Longrightarrow> i \<notin> set (frames (Confetti_cleanup w))"
  "animate (Confetti_cleanup w) = Confetti_cleanup w"
  by (simp_all add: Confetti_cleanup_def cancelAnimationFrame_def animate_def Let_def
        split: option.splits)

text \<open>
  C4: for both emitters \<^verbatim>\<open>cleanup\<close> is a total function of the state (it has no
  failing branch, whatever the state: nothing running, torn down already) and calling
  it twice gives the state of calling it once. After the fireworks' \<^verbatim>\<open>cleanup\<close> no
  rocket or spark is in the document, the end-time is 0, and at any time from 0 on
  \<^verbatim>\<open>launchNext\<close> launches nothing; after the confetti's \<^verbatim>\<open>cleanup\<close> the particle set
  is empty, the canvas is out of the document, the loop is not animating, the frame
  it had last requested is cancelled, and a pass of \<^verbatim>\<open>animate\<close> does nothing.
\<close>

theorem cleanup_idempotent:
  "Fireworks_cleanup (Fireworks_cleanup w) = Fireworks_cleanup w
   \<and> Confetti_cleanup (Confetti_cleanup w) = Confetti_cleanup w
   \<and> nodes (Fireworks_cleanup w) = []
   \<and> (fireworks w = Some f \<longrightarrow> fireworks (Fireworks_cleanup w) = Some (f\<lparr> endTime := Finite 0 \<rparr>))
   \<and> (0 \<le> now e \<longrightarrow>
        \<not> running e (Fireworks_cleanup w) \<and>
        launchNext e (Fireworks_cleanup w) = Fireworks_cleanup w)
   \<and> particles (Confetti_cleanup w) = []
   \<and> \<not> isAnimating (Confetti_cleanup w)
   \<and> \<not> canvasAttached (Confetti_cleanup w)
   \<and> (animationFrame w = Some i \<longrightarrow> i \<notin> set (frames (Confetti_cleanup w)))
   \<and> animate (Confetti_cleanup w) = Confetti_cleanup w"
  using Fireworks_cleanup_twice [of w] Confetti_cleanup_twice [of w]
    Fireworks_cleanup_state Confetti_cleanup_state
    launchNext_stopped [of e "Fireworks_cleanup w"]
  by blast

text \<open>A state with a rocket in the air and a frame requested by a running loop.\<close>

theorem cleanup_idempotent_witness:
  "fireworks (busy_page) = Some \<lparr> endTime = Infinity \<rparr>
   \<and> 0 \<le> now nov2
   \<and> animationFrame busy_page = Some 1
   \<and> nodes busy_page \<noteq> [] \<and> particles busy_page \<noteq> [] \<and> frames busy_page = [1]
   \<and> Fireworks_cleanup (Fireworks_cleanup busy_page) = Fireworks_cleanup busy_page
   \<and> Confetti_cleanup (Confetti_cleanup busy_page) = Confetti_cleanup busy_page
   \<and> fireworks (Fireworks_cleanup busy_page) = Some \<lparr> endTime = Finite 0 \<rparr>
   \<and> nodes (Fireworks_cleanup busy_page) = []
   \<and> launchNext nov2 (Fireworks_cleanup busy_page) = Fireworks_cleanup busy_page
   \<and> particles (Confetti_cleanup busy_page) = []
   \<and> 1 \<notin> set (frames (Confetti_cleanup busy_page))
   \<and> Fireworks_cleanup (Fireworks_cleanup page) = Fireworks_cleanup page
   \<and> Confetti_cleanup (Confetti_cleanup page) = Confetti_cleanup page"
proof -
  have f: "fireworks busy_page = Some \<lparr> endTime = Infinity \<rparr>"
    and a: "animationFrame busy_page = Some 1"
    and s: "nodes busy_page \<noteq> [] \<and> particles busy_page \<noteq> [] \<and> frames busy_page = [1]"
    by (simp_all add: busy_page_def)
  have t: "0 \<le> now nov2"
    by (simp add: nov2_def)
  have u: "\<lparr> endTime = Infinity \<rparr>\<lparr> endTime := Finite 0 \<rparr> = \<lparr> endTime = Finite 0 \<rparr>"
    by simp
  show ?thesis
    using f a s t
      cleanup_idempotent [of busy_page "\<lparr> endTime = Infinity \<rparr>" nov2 1]
      cleanup_idempotent [of page "\<lparr> endTime = Infinity \<rparr>" nov2 1]
    unfolding u by blast
qed

subsection \<open>The horizontal position of a launch\<close>

lemma launch_rocket:
  "nodes (launch e w) =
     nodes w @ [Rocket \<lparr> rocket_id = nextId w,
                         rocket_left = launch_x (rnd e (draws w)) (innerWidth e) \<rparr>]"
  by (simp add: launch_def createRocket_def setTimeout_def Let_def)

text \<open>
  C9, as stated, in a window 40 pixels wide with the draw \<open>0.9\<close>: the rocket is placed
  at \<open>-4\<close>, left of the viewport; no clamping has taken place.
\<close>

theorem launch_position_counterexample:
  "nodes (launch narrow page) = [Rocket \<lparr> rocket_id = 0, rocket_left = - 4 \<rparr>]
   \<and> \<not> (0 \<le> launch_x (9 / 10) 40 \<and> launch_x (9 / 10) 40 \<le> 40)"
  by (simp add: launch_rocket launch_x_def page_def narrow_def nov2_def)

text \<open>
  C9, amended: for every window width \<open>iw\<close> and draw \<open>r\<close> in \<open>[0, 1)\<close> the launch
  places its rocket at \<open>r * (iw - 100) + 50\<close>, a number, without failing. For a width
  of at least 100 the position lies within the margins, in \<open>[50, iw - 50]\<close>; for a
  smaller width it is not clamped and lies in \<open>(iw - 50, 50]\<close>.
\<close>

theorem launch_position_range:
  assumes "0 \<le> rnd e (draws w)" and "rnd e (draws w) < 1"
  shows "nodes (launch e w) =
           nodes w @ [Rocket \<lparr> rocket_id = nextId w,
                               rocket_left = launch_x (rnd e (draws w)) (innerWidth e) \<rparr>]
         \<and> launch_x (rnd e (draws w)) (innerWidth e) = rnd e (draws w) * (innerWidth e - 100) + 50
         \<and> (100 \<le> innerWidth e \<longrightarrow>
              50 \<le> launch_x (rnd e (draws w)) (innerWidth e) \<and>
              launch_x (rnd e (draws w)) (innerWidth e) \<le> innerWidth e - 50)
         \<and> (innerWidth e < 100 \<longrightarrow>
              innerWidth e - 50 < launch_x (rnd e (draws w)) (innerWidth e) \<and>
              launch_x (rnd e (draws w)) (innerWidth e) \<le> 50)"
proof -
  let ?r = "rnd e (draws w)" and ?iw = "innerWidth e"
  have wide: "50 \<le> launch_x ?r ?iw \<and> launch_x ?r ?iw \<le> ?iw - 50" if "100 \<le> ?iw"
  proof -
    from that have d: "0 \<le> ?iw - 100" by simp
    have "0 \<le> ?r * (?iw - 100)"
      using assms(1) d by (rule mult_nonneg_nonneg)
    moreover have "?r * (?iw - 100) \<le> 1 * (?iw - 100)"
      using assms(2) d by (intro mult_right_mono) simp_all
    ultimately show ?thesis
      by (simp add: launch_x_def)
  qed
  have narrow: "?iw - 50 < launch_x ?r ?iw \<and> launch_x ?r ?iw \<le> 50" if "?iw < 100"
  proof -
    from that have d: "?iw - 100 < 0" by simp
    have "?r * (?iw - 100) \<le> 0"
      using assms(1) d by (simp add: mult_nonneg_nonpos)
    moreover have "1 * (?iw - 100) < ?r * (?iw - 100)"
      using assms(2) d by (rule mult_strict_right_mono_neg)
    ultimately show ?thesis
      by (simp add: launch_x_def)
  qed
  show ?thesis
    using wide narrow launch_rocket [of e w] by (simp add: launch_x_def)
qed

theorem launch_position_range_witness:
  "0 \<le> rnd nov2 (draws page) \<and> rnd nov2 (draws page) < 1
   \<and> 100 \<le> innerWidth nov2
   \<and> 50 \<le> launch_x (rnd nov2 (draws page)) (innerWidth nov2)
   \<and> launch_x (rnd nov2 (draws page)) (innerWidth nov2) \<le> innerWidth nov2 - 50
   \<and> innerWidth narrow < 100
   \<and> innerWidth narrow - 50 < launch_x (rnd narrow (draws page)) (innerWidth narrow)
   \<and> launch_x (rnd narrow (draws page)) (innerWidth narrow) \<le> 50"
proof -
  have h1: "0 \<le> rnd nov2 (draws page)" and h2: "rnd nov2 (draws page) < 1"
    and h3: "100 \<le> innerWidth nov2"
    by (simp_all add: nov2_def)
  have g1: "0 \<le> rnd narrow (draws page)" and g2: "rnd narrow (draws page) < 1"
    and g3: "innerWidth narrow < 100"
    by (simp_all add: narrow_def nov2_def)
  show ?thesis
    using h1 h2 h3 g3
      launch_position_range [OF h1 h2]
      launch_position_range [OF g1 g2]
    by blast
qed

subsection \<open>The sparks of an explosion\<close>

lemma explosion_step_effect:
  "nodes (explosion_step e x0 y0 c i w) =
     nodes w @ [Spark (made_spark e x0 y0 c i (draws w) (nextId w))]"
  "draws (explosion_step e x0 y0 c i w) = draws w + 4"
  "nextId (explosion_step e x0 y0 c i w) = nextId w + 1"
  by (simp_all add: explosion_step_def createSpark_def setTimeout_def made_spark_def Let_def
        eval_nat_numeral)

lemma explosion_loop:
  "nodes (fold (explosion_step e x0 y0 c) [0 ..< n] w) =
     nodes w @ map (\<lambda>i. Spark (made_spark e x0 y0 c i (draws w + 4 * i) (nextId w + i))) [0 ..< n]
   \<and> draws (fold (explosion_step e x0 y0 c) [0 ..< n] w) = draws w + 4 * n
   \<and> nextId (fold (explosion_step e x0 y0 c) [0 ..< n] w) = nextId w + n"
proof (induction n)
  case 0
  show ?case by simp
next
  case (Suc n)
  then show ?case
    by (simp add: explosion_step_effect)
qed

lemma createExplosion_nodes:
  "nodes (createExplosion e x0 y0 c w) =
     nodes w @ map (\<lambda>i. Spark (made_spark e x0 y0 c i (draws w + 4 * i) (nextId w + i)))
                [0 ..< explosion_particleCount]"
  by (simp add: createExplosion_def explosion_loop)

lemma createExplosion_nth:
  assumes "i < 80"
  shows "nodes (createExplosion e x0 y0 c w) ! (length (nodes w) + i) =
           Spark (made_spark e x0 y0 c i (draws w + 4 * i) (nextId w + i))"
  using assms by (simp add: createExplosion_nodes explosion_particleCount_def nth_append)

lemma jitter_range:
  assumes "0 \<le> r" and "r < (1::real)"
  shows "0 \<le> r * 20" and "r * 20 < 20" and "\<bar>r * 20\<bar> \<le> 20"
    and "100 \<le> 100 + r * 100" and "100 + r * 100 < 200"
    and "0.7 \<le> 0.7 + r * 0.3" and "0.7 + r * 0.3 < 1"
  using assms by simp_all

text \<open>
  C5: an explosion appends exactly 80 sparks to the document. For draws in \<open>[0, 1)\<close>,
  the spark of index \<open>i\<close> has the angle \<open>i * (360 / 80)\<close> plus a jitter of its own draw
  times 20, which is within 20 degrees of the even spacing (it lies in \<open>[0, 20)\<close>);
  its velocity is 100 plus a second draw times 100, in \<open>[100, 200)\<close>; and the
  distance it travels is that velocity scaled by \<open>0.7\<close> plus a further draw times
  \<open>0.3\<close>, a factor in \<open>[0.7, 1)\<close>. The draws of all sparks are at different positions
  of the sequence: spark \<open>i\<close> reads positions \<open>4 i\<close> to \<open>4 i + 3\<close> after the start.
\<close>

theorem explosion_sparks:
  assumes "\<forall>k. 0 \<le> rnd e k \<and> rnd e k < 1"
  shows "length (nodes (createExplosion e x0 y0 c w)) = length (nodes w) + 80
         \<and> take (length (nodes w)) (nodes (createExplosion e x0 y0 c w)) = nodes w
         \<and> (\<forall>i<80. \<exists>s.
               nodes (createExplosion e x0 y0 c w) ! (length (nodes w) + i) = Spark s
               \<and> spark_angle s = real i * (360 / 80) + rnd e (draws w + 4 * i) * 20
               \<and> \<bar>spark_angle s - real i * (360 / 80)\<bar> \<le> 20
               \<and> 0 \<le> spark_angle s - real i * (360 / 80)
               \<and> spark_angle s - real i * (360 / 80) < 20
               \<and> spark_velocity s = 100 + rnd e (draws w + 4 * i + 1) * 100
               \<and> 100 \<le> spark_velocity s \<and> spark_velocity s < 200
               \<and> spark_distance s =
                   spark_velocity s * (0.7 + rnd e (draws w + 4 * i + 3) * 0.3)
               \<and> 0.7 \<le> 0.7 + rnd e (draws w + 4 * i + 3) * 0.3
               \<and> 0.7 + rnd e (draws w + 4 * i + 3) * 0.3 < 1)"
proof -
  have len: "length (nodes (createExplosion e x0 y0 c w)) = length (nodes w) + 80"
    by (simp add: createExplosion_nodes explosion_particleCount_def)
  have old: "take (length (nodes w)) (nodes (createExplosion e x0 y0 c w)) = nodes w"
    by (simp add: createExplosion_nodes)
  have each: "\<exists>s. nodes (createExplosion e x0 y0 c w) ! (length (nodes w) + i) = Spark s
               \<and> spark_angle s = real i * (360 / 80) + rnd e (draws w + 4 * i) * 20
               \<and> \<bar>spark_angle s - real i * (360 / 80)\<bar> \<le> 20
               \<and> 0 \<le> spark_angle s - real i * (360 / 80)
               \<and> spark_angle s - real i * (360 / 80) < 20
               \<and> spark_velocity s = 100 + rnd e (draws w + 4 * i + 1) * 100
               \<and> 100 \<le> spark_velocity s \<and> spark_velocity s < 200
               \<and> spark_distance s =
                   spark_velocity s * (0.7 + rnd e (draws w + 4 * i + 3) * 0.3)
               \<and> 0.7 \<le> 0.7 + rnd e (draws w + 4 * i + 3) * 0.3
               \<and> 0.7 + rnd e (draws w + 4 * i + 3) * 0.3 < 1"
    if i: "i < 80" for i
  proof -
    let ?k = "draws w + 4 * i"
    let ?s = "made_spark e x0 y0 c i ?k (nextId w + i)"
    have r0: "0 \<le> rnd e ?k" "rnd e ?k < 1"
      and r1: "0 \<le> rnd e (?k + 1)" "rnd e (?k + 1) < 1"
      and r3: "0 \<le> rnd e (?k + 3)" "rnd e (?k + 3) < 1"
      using assms by simp_all
    have a: "spark_angle ?s = real i * (360 / 80) + rnd e ?k * 20"
      by (simp add: made_spark_def Let_def explosion_particleCount_def)
    have v: "spark_velocity ?s = 100 + rnd e (?k + 1) * 100"
      by (simp add: made_spark_def Let_def)
    have d: "spark_distance ?s = spark_velocity ?s * (0.7 + rnd e (?k + 3) * 0.3)"
      by (simp add: made_spark_def Let_def)
    have j: "spark_angle ?s - real i * (360 / 80) = rnd e ?k * 20"
      using a by simp
    show ?thesis
      using createExplosion_nth [OF i, of e x0 y0 c w] a v d
        jitter_range(1-3) [OF r0] jitter_range(4-5) [OF r1] jitter_range(6-7) [OF r3]
      unfolding j by (intro exI [of _ ?s]) simp
  qed
  show ?thesis
    using len old each by blast
qed

theorem explosion_sparks_witness:
  "(\<forall>k. 0 \<le> rnd nov2 k \<and> rnd nov2 k < 1)
   \<and> length (nodes (createExplosion nov2 985 250 ''#0000ff'' busy_page)) = 81
   \<and> (\<exists>s. nodes (createExplosion nov2 985 250 ''#0000ff'' busy_page) ! (1 + 79) = Spark s
          \<and> spark_angle s = 365.5 \<and> spark_velocity s = 150 \<and> spark_distance s = 127.5)"
proof -
  have h: "\<forall>k. 0 \<le> rnd nov2 k \<and> rnd nov2 k < 1"
    by (simp add: nov2_def)
  have n: "length (nodes busy_page) = 1"
    by (simp add: busy_page_def)
  have r: "rnd nov2 k = 1 / 2" for k
    by (simp add: nov2_def)
  note t = explosion_sparks [OF h, of 985 250 "''#0000ff''" busy_page]
  from t have len: "length (nodes (createExplosion nov2 985 250 ''#0000ff'' busy_page)) = 81"
    by (simp add: n)
  have lt: "(79::nat) < 80"
    by simp
  from t lt have "\<exists>s. nodes (createExplosion nov2 985 250 ''#0000ff'' busy_page)
                   ! (length (nodes busy_page) + 79) = Spark s
          \<and> spark_angle s = real (79::nat) * (360 / 80) + rnd nov2 (draws busy_page + 4 * 79) * 20
          \<and> spark_velocity s = 100 + rnd nov2 (draws busy_page + 4 * 79 + 1) * 100
          \<and> spark_distance s =
              spark_velocity s * (0.7 + rnd nov2 (draws busy_page + 4 * 79 + 3) * 0.3)"
    by blast
  then obtain s where s:
    "nodes (createExplosion nov2 985 250 ''#0000ff'' busy_page) ! (1 + 79) = Spark s"
    "spark_angle s = real (79::nat) * (360 / 80) + 1 / 2 * 20"
    "spark_velocity s = 100 + 1 / 2 * 100"
    "spark_distance s = spark_velocity s * (0.7 + 1 / 2 * 0.3)"
    unfolding n r by blast
  have "spark_angle s = 365.5 \<and> spark_velocity s = 150 \<and> spark_distance s = 127.5"
    using s(2-4) by simp
  with s(1) h len show ?thesis
    by blast
qed

subsection \<open>The frame loop of the confetti comes to rest\<close>

text \<open>
  The vertical speed of a particle obeys \<open>v' = (v + 0.25) * 0.955\<close>: it tends to
  \<open>191 / 36\<close>, about 5.3 pixels per tick downwards, so from some tick on it is at
  least 2, and the vertical position passes every bound.
\<close>

lemma fall_closed_form:
  fixes v :: "nat \<Rightarrow> real"
  assumes "\<And>k. v (Suc k) = (v k + 1 / 4) * (191 / 200)"
  shows "v k = 191 / 36 + (191 / 200) ^ k * (v 0 - 191 / 36)"
proof (induction k)
  case 0
  show ?case by simp
next
  case (Suc k)
  have "v (Suc k) = (191 / 36 + (191 / 200) ^ k * (v 0 - 191 / 36) + 1 / 4) * (191 / 200)"
    using assms [of k] Suc by simp
  also have "\<dots> = 191 / 36 + 191 / 200 * ((191 / 200) ^ k * (v 0 - 191 / 36))"
  proof -
    have "(191 / 36 + X + 1 / 4) * (191 / 200) = 191 / 36 + 191 / 200 * X" for X :: real
      by simp
    then show ?thesis .
  qed
  finally show ?case by simp
qed

lemma fall_speed_eventually:
  fixes v :: "nat \<Rightarrow> real"
  assumes "\<And>k. v (Suc k) = (v k + 1 / 4) * (191 / 200)"
  shows "\<exists>N. \<forall>k\<ge>N. 2 \<le> v k"
proof -
  define d where "d = \<bar>v 0 - 191 / 36\<bar> + 1"
  have dpos: "0 < d"
    by (simp add: d_def)
  then have "0 < (119 / 36) / d"
    by simp
  then obtain N where N: "(191 / 200 :: real) ^ N < (119 / 36) / d"
    using real_arch_pow_inv [of "(119 / 36) / d" "191 / 200"] by auto
  have "2 \<le> v k" if "N \<le> k" for k
  proof -
    have "(191 / 200 :: real) ^ k \<le> (191 / 200) ^ N"
      using that by (intro power_decreasing) simp_all
    then have "(191 / 200 :: real) ^ k < (119 / 36) / d"
      using N by (rule le_less_trans)
    then have lt: "(191 / 200 :: real) ^ k * d < 119 / 36"
      using dpos by (simp add: pos_less_divide_eq)
    have "- ((191 / 200 :: real) ^ k * d) \<le> (191 / 200) ^ k * (v 0 - 191 / 36)"
    proof -
      have "- d \<le> v 0 - 191 / 36"
        by (simp add: d_def)
      then have "(191 / 200 :: real) ^ k * (- d) \<le> (191 / 200) ^ k * (v 0 - 191 / 36)"
        by (intro mult_left_mono) simp_all
      then show ?thesis by simp
    qed
    with lt have "- (119 / 36) < (191 / 200 :: real) ^ k * (v 0 - 191 / 36)"
      by simp
    then show ?thesis
      using fall_closed_form [of v k] assms by simp
  qed
  then show ?thesis by blast
qed

lemma fall_reaches:
  fixes v z :: "nat \<Rightarrow> real"
  assumes z: "\<And>k. z (Suc k) = z k + v k"
    and v: "\<forall>k\<ge>N. 2 \<le> v k"
  shows "\<exists>k. h \<le> z (Suc k)"
proof -
  have grow: "z N + 2 * real m \<le> z (N + m)" for m
  proof (induction m)
    case 0
    show ?case by simp
  next
    case (Suc m)
    have "2 \<le> v (N + m)"
      using v by simp
    then show ?case
      using Suc z [of "N + m"] by simp
  qed
  obtain m where m: "h - z N < real m"
    using reals_Archimedean2 by blast
  have "h \<le> z N + 2 * real (Suc m)"
    using m by simp
  also have "\<dots> \<le> z (N + Suc m)"
    by (rule grow)
  finally have "h \<le> z (Suc (N + m))"
    by simp
  then show ?thesis by blast
qed

lemma tick_fields:
  "py (tick h p) = py p + vy p"
  "vy (tick h p) = (vy p + gravity p) * (1 - drag p)"
  "gravity (tick h p) = gravity p"
  "drag (tick h p) = drag p"
  by (simp_all add: tick_def update_def physics_def Let_def)

lemma not_alive_below: "h \<le> py (tick h p) \<Longrightarrow> \<not> snd (update h p)"
  by (simp add: tick_def update_def Let_def)

lemma ticks_constants:
  "gravity ((tick h ^^ k) p) = gravity p \<and> drag ((tick h ^^ k) p) = drag p"
  by (induction k) (simp_all add: tick_fields)

lemma dies_when_below:
  "h \<le> py ((tick h ^^ Suc k) p) \<Longrightarrow> dies_within h (Suc k) p"
proof (induction k arbitrary: p)
  case 0
  then show ?case
    by (simp add: not_alive_below)
next
  case (Suc k)
  have "(tick h ^^ Suc (Suc k)) p = (tick h ^^ Suc k) (tick h p)"
    by (simp only: funpow_Suc_right comp_apply)
  with Suc.prems have "dies_within h (Suc k) (tick h p)"
    by (intro Suc.IH) simp
  then show ?case
    by (simp add: tick_def)
qed

lemma dies_within_mono:
  "dies_within h n p \<Longrightarrow> n \<le> m \<Longrightarrow> dies_within h m p"
proof (induction n arbitrary: p m)
  case 0
  then show ?case by simp
next
  case (Suc n)
  then obtain m' where m: "m = Suc m'" and le: "n \<le> m'"
    by (cases m) simp_all
  from Suc.prems(1) show ?case
    unfolding m using Suc.IH [OF _ le] by auto
qed

lemma particle_dies:
  assumes "gravity p = 0.25" and "drag p = 0.045"
  shows "\<exists>n. dies_within h n p"
proof -
  let ?v = "\<lambda>k. vy ((tick h ^^ k) p)"
  let ?z = "\<lambda>k. py ((tick h ^^ k) p)"
  have g: "gravity p = 1 / 4" and d: "drag p = 9 / 200"
    using assms by simp_all
  have v: "?v (Suc k) = (?v k + 1 / 4) * (191 / 200)" for k
  proof -
    have "?v (Suc k) = (?v k + gravity p) * (1 - drag p)"
      by (simp add: tick_fields ticks_constants)
    also have "\<dots> = (?v k + 1 / 4) * (191 / 200)"
      unfolding g d by simp
    finally show ?thesis .
  qed
  have z: "?z (Suc k) = ?z k + ?v k" for k
    by (simp add: tick_fields)
  obtain N where "\<forall>k\<ge>N. 2 \<le> ?v k"
    using fall_speed_eventually [of ?v] v by blast
  then obtain k where "h \<le> ?z (Suc k)"
    using fall_reaches [of ?z ?v N h] z by blast
  then have "dies_within h (Suc k) p"
    by (rule dies_when_below)
  then show ?thesis ..
qed

lemma particles_die:
  assumes "\<forall>p\<in>set ps. gravity p = 0.25 \<and> drag p = 0.045"
  shows "\<exists>n. \<forall>p\<in>set ps. dies_within h n p"
  using assms
proof (induction ps)
  case Nil
  show ?case by simp
next
  case (Cons p ps)
  then obtain n where n: "\<forall>q\<in>set ps. dies_within h n q"
    by auto
  from Cons.prems obtain m where m: "dies_within h m p"
    using particle_dies [of p h] by auto
  have "\<forall>q\<in>set (p # ps). dies_within h (max m n) q"
    using n m by (auto intro: dies_within_mono)
  then show ?case ..
qed

lemma survivors_die:
  assumes "\<forall>p\<in>set ps. dies_within h (Suc n) p"
  shows "\<forall>q\<in>set (survivors h ps). dies_within h n q"
proof
  fix q
  assume "q \<in> set (survivors h ps)"
  then obtain p where p: "p \<in> set ps" "snd (update h p)" "q = fst (update h p)"
    by (auto simp add: survivors_def)
  from assms p(1) have "dies_within h (Suc n) p" ..
  with p(2,3) show "dies_within h n q"
    by simp
qed

lemma animate_pass:
  assumes "isAnimating w"
  shows "particles (animate w) = survivors (height w) (particles w)"
    and "height (animate w) = height w"
    and "particles (animate w) = [] \<Longrightarrow> \<not> isAnimating (animate w) \<and> frames (animate w) = frames w"
    and "particles (animate w) \<noteq> [] \<Longrightarrow>
           isAnimating (animate w) \<and> frames (animate w) = frames w @ [nextFrame w]"
  using assms
  by (simp_all add: animate_def survivors_def requestAnimationFrame_def Let_def split: if_splits)

lemma frame_halted: "halted w \<Longrightarrow> frame w = w"
  by (simp add: frame_def halted_def)

lemma frame_looping:
  assumes "looping w"
  shows "particles (frame w) = survivors (height w) (particles w)"
    and "height (frame w) = height w"
    and "halted (frame w) \<or> looping (frame w)"
proof -
  from assms obtain i where i: "frames w = [i]"
    by (auto simp add: looping_def length_Suc_conv)
  let ?w0 = "w\<lparr> frames := [] \<rparr>"
  have f: "frame w = animate ?w0"
    by (simp add: frame_def i)
  have a: "isAnimating ?w0"
    using assms by (simp add: looping_def)
  show "particles (frame w) = survivors (height w) (particles w)"
    using animate_pass(1) [OF a] by (simp add: f)
  show "height (frame w) = height w"
    using animate_pass(2) [OF a] by (simp add: f)
  show "halted (frame w) \<or> looping (frame w)"
  proof (cases "particles (animate ?w0) = []")
    case True
    with animate_pass(3) [OF a] have "halted (frame w)"
      by (simp add: f halted_def)
    then show ?thesis ..
  next
    case False
    with animate_pass(4) [OF a] have "looping (frame w)"
      by (simp add: f looping_def)
    then show ?thesis ..
  qed
qed

lemma idle_halted: "halted w \<Longrightarrow> idle m w = w"
  by (induction m) (simp_all add: frame_halted)

lemma idle_add: "idle (n + m) w = idle m (idle n w)"
  by (induction n arbitrary: w) simp_all

lemma idle_halts:
  assumes "looping w \<or> halted w"
    and "\<forall>p\<in>set (particles w). dies_within (height w) n p"
  shows "halted (idle n w)"
  using assms
proof (induction n arbitrary: w)
  case 0
  then show ?case
    by (auto simp add: looping_def)
next
  case (Suc n)
  from Suc.prems(1) show ?case
  proof
    assume "halted w"
    then show ?thesis
      by (simp add: idle_halted del: idle.simps)
  next
    assume l: "looping w"
    have "\<forall>p\<in>set (particles (frame w)). dies_within (height (frame w)) n p"
      using survivors_die [OF Suc.prems(2)] by (simp add: frame_looping(1,2) [OF l])
    moreover have "looping (frame w) \<or> halted (frame w)"
      using frame_looping(3) [OF l] by blast
    ultimately have "halted (idle n (frame w))"
      by (intro Suc.IH)
    then show ?thesis by simp
  qed
qed

lemma idle_stays_halted:
  assumes "looping w"
    and "\<forall>p\<in>set (particles w). dies_within (height w) n p"
    and "n \<le> m"
  shows "halted (idle m w)"
proof -
  have h: "halted (idle n w)"
    using assms(1,2) by (intro idle_halts) simp_all
  obtain d where "m = n + d"
    using assms(3) le_Suc_ex by blast
  then have "idle m w = idle d (idle n w)"
    by (simp add: idle_add)
  with h show ?thesis
    by (simp add: idle_halted)
qed

text \<open>
  C8: in a pass of the frame loop every particle is updated and exactly those
  reported alive are kept; if none is left the pass clears \<^verbatim>\<open>isAnimating\<close> and
  requests no frame, otherwise it requests the next frame. Hence, with the loop
  running on a non-empty particle set in a viewport of positive height, and nothing
  but display frames (no \<^verbatim>\<open>fire\<close>, no resize) in between: if every particle
  is reported not alive within \<open>n\<close> updates, then after \<open>n\<close> display frames, and after
  any longer idle period, the particle set is empty, \<^verbatim>\<open>isAnimating\<close> is false and
  no frame is requested; and for particles with the gravity and drag of the
  constructor such an \<open>n\<close> exists.
\<close>

theorem frame_loop_comes_to_rest:
  assumes "isAnimating w" and "particles w \<noteq> []" and "frames w = [i]"
    and "\<forall>p\<in>set (particles w). gravity p = 0.25 \<and> drag p = 0.045"
    and "0 < height w"
  shows "particles (animate w) = map fst (filter snd (map (update (height w)) (particles w)))
         \<and> (particles (animate w) = [] \<longrightarrow>
              \<not> isAnimating (animate w) \<and> frames (animate w) = frames w)
         \<and> (particles (animate w) \<noteq> [] \<longrightarrow>
              isAnimating (animate w) \<and> frames (animate w) = frames w @ [nextFrame w])
         \<and> (\<forall>n. (\<forall>p\<in>set (particles w). dies_within (height w) n p) \<longrightarrow>
                (\<forall>m\<ge>n. particles (idle m w) = [] \<and> \<not> isAnimating (idle m w)
                        \<and> frames (idle m w) = []))
         \<and> (\<exists>n. \<forall>p\<in>set (particles w). dies_within (height w) n p)"
proof -
  have l: "looping w"
    using assms(1-3) by (simp add: looping_def)
  have a: "particles (animate w) = map fst (filter snd (map (update (height w)) (particles w)))"
    using animate_pass(1) [OF assms(1)] by (simp add: survivors_def)
  have b: "particles (idle m w) = [] \<and> \<not> isAnimating (idle m w) \<and> frames (idle m w) = []"
    if "\<forall>p\<in>set (particles w). dies_within (height w) n p" and "n \<le> m" for n m
    using idle_stays_halted [OF l that] by (simp add: halted_def)
  have c: "\<exists>n. \<forall>p\<in>set (particles w). dies_within (height w) n p"
    using assms(4) by (rule particles_die)
  show ?thesis
    using a b c animate_pass(3,4) [OF assms(1)] by blast
qed

theorem frame_loop_comes_to_rest_witness:
  "isAnimating dusk_page \<and> particles dusk_page = [low_particle] \<and> frames dusk_page = [1]
   \<and> gravity low_particle = 0.25 \<and> drag low_particle = 0.045
   \<and> height dusk_page = 600 \<and> \<not> snd (update 600 low_particle)
   \<and> particles (animate dusk_page) = []
   \<and> \<not> isAnimating (animate dusk_page) \<and> frames (animate dusk_page) = [1]
   \<and> particles (idle 1 dusk_page) = [] \<and> \<not> isAnimating (idle 1 dusk_page)
   \<and> frames (idle 1 dusk_page) = []
   \<and> particles (idle 60 dusk_page) = [] \<and> \<not> isAnimating (idle 60 dusk_page)"
proof -
  have h1: "isAnimating dusk_page" and h2: "particles dusk_page \<noteq> []"
    and h3: "frames dusk_page = [1]"
    and h4: "\<forall>p\<in>set (particles dusk_page). gravity p = 0.25 \<and> drag p = 0.045"
    by (simp_all add: dusk_page_def busy_page_def low_particle_def)
  have p: "particles dusk_page = [low_particle]" "height dusk_page = 600"
    "gravity low_particle = 0.25" "drag low_particle = 0.045"
    by (simp_all add: dusk_page_def busy_page_def low_particle_def)
  have dead: "\<not> snd (update 600 low_particle)"
    by (simp add: update_def Let_def physics_def low_particle_def)
  then have d: "\<forall>p\<in>set (particles dusk_page). dies_within (height dusk_page) 1 p"
    by (simp add: dusk_page_def busy_page_def)
  have e: "particles (animate dusk_page) = []"
    using \<open>\<not> snd (update 600 low_particle)\<close>
    by (simp add: animate_pass(1) [OF h1] survivors_def) (simp add: dusk_page_def busy_page_def)
  have h5: "0 < height dusk_page"
    by (simp add: p)
  note t = frame_loop_comes_to_rest [OF h1 h2 h3 h4 h5]
  from t e have a: "\<not> isAnimating (animate dusk_page) \<and> frames (animate dusk_page) = [1]"
    unfolding h3 by blast
  from t have "\<forall>n. (\<forall>p\<in>set (particles dusk_page). dies_within (height dusk_page) n p) \<longrightarrow>
      (\<forall>m\<ge>n. particles (idle m dusk_page) = [] \<and> \<not> isAnimating (idle m dusk_page)
              \<and> frames (idle m dusk_page) = [])"
    by (elim conjE)
  then have "(\<forall>p\<in>set (particles dusk_page). dies_within (height dusk_page) 1 p) \<longrightarrow>
      (\<forall>m\<ge>1. particles (idle m dusk_page) = [] \<and> \<not> isAnimating (idle m dusk_page)
              \<and> frames (idle m dusk_page) = [])"
    by (rule spec)
  from this d have r: "\<forall>m\<ge>1. particles (idle m dusk_page) = [] \<and> \<not> isAnimating (idle m dusk_page)
              \<and> frames (idle m dusk_page) = []"
    by (rule mp)
  have r1: "particles (idle 1 dusk_page) = [] \<and> \<not> isAnimating (idle 1 dusk_page)
              \<and> frames (idle 1 dusk_page) = []"
    using r [THEN spec, of 1] by simp
  have r60: "particles (idle 60 dusk_page) = [] \<and> \<not> isAnimating (idle 60 dusk_page)
              \<and> frames (idle 60 dusk_page) = []"
    using r [THEN spec, of 60] by simp
  show ?thesis
    using h1 p dead h3 e a r1 r60 by (intro conjI) (elim conjE, assumption)+
qed

end
